theory Spec2Isabelle
  imports
    Complex_Main
    "HOL-Library.Char_ord"
    "HOL-Library.Log_Nat"
    "HOL-Library.List_Lexorder"
    "HOL-Library.Product_Lexorder"
begin

section \<open>Numbers\<close>

text \<open>
  The statistics are pandas/numpy numbers. A column of counts (goals, shots, points, ...)
  holds whole numbers and is an \<open>int\<close>; expected-goals columns and percentages are 64-bit
  floats. The result of a division is a float that may be infinite or not-a-number: numpy
  does not raise on a zero divisor, it returns \<open>inf\<close> or \<open>nan\<close>. The type \<open>fl\<close>
  keeps these apart from the finite values; a finite float is written as the rational
  number it is equal to.
\<close>

datatype fl = Fin rat | PInf | NInf | NaN

definition fi :: "int \<Rightarrow> fl" where
  "fi n = Fin (of_int n)"

text \<open>
  Rounding to an integer, a tie going to the even neighbour: the rounding of a mantissa,
  of \<open>np.rint\<close> and of \<open>round\<close>.
\<close>

definition round_half_even :: "rat \<Rightarrow> int" where
  "round_half_even y =
     (let f = \<lfloor>y\<rfloor>; d = y - of_int f
      in if d < 1 / 2 then f else if 1 / 2 < d then f + 1 else if even f then f else f + 1)"

text \<open>
  IEEE-754 binary64, round to nearest, ties to even. \<open>ilog2 q\<close> is the exponent of the
  leading bit of a positive \<open>q\<close>, that is \<open>2 ^ ilog2 q \<le> q < 2 ^ (ilog2 q + 1)\<close>, found
  from the bit lengths of numerator and denominator. The last bit of the 53-bit mantissa
  of \<open>q\<close> has the exponent \<open>ilog2 \<bar>q\<bar> - 52\<close>, and not less than \<open>-1074\<close> (gradual
  underflow); \<open>round_double q\<close> is the nearest multiple of that power of two, the double
  that a computation with the exact result \<open>q\<close> stores. A rational that is no double, as
  an operand, is read as the nearest double. Signed zeros are not part of the model, and
  the exponent of the result of an operation is not bounded above: a finite result does
  not overflow to an infinity (the overflow of a number read from text is \<open>to_double\<close>).
\<close>

definition pow2 :: "int \<Rightarrow> rat" where
  "pow2 e = power_int 2 e"

definition ilog2 :: "rat \<Rightarrow> int" where
  "ilog2 q =
     (let (a, b) = quotient_of q; k = bitlen a - bitlen b
      in if pow2 k \<le> q then k else k - 1)"

definition ulp_exponent :: "rat \<Rightarrow> int" where
  "ulp_exponent q = max (ilog2 \<bar>q\<bar>) (- 1022) - 52"

definition round_double :: "rat \<Rightarrow> rat" where
  "round_double q =
     (if q = 0 then 0
      else let e = ulp_exponent q in of_int (round_half_even (q / pow2 e)) * pow2 e)"

fun fneg :: "fl \<Rightarrow> fl" where
  "fneg (Fin a) = Fin (- a)"
| "fneg PInf = NInf"
| "fneg NInf = PInf"
| "fneg NaN = NaN"

fun fadd :: "fl \<Rightarrow> fl \<Rightarrow> fl" where
  "fadd NaN _ = NaN"
| "fadd _ NaN = NaN"
| "fadd (Fin a) (Fin b) = Fin (round_double (round_double a + round_double b))"
| "fadd PInf NInf = NaN"
| "fadd NInf PInf = NaN"
| "fadd PInf _ = PInf"
| "fadd _ PInf = PInf"
| "fadd NInf _ = NInf"
| "fadd _ NInf = NInf"

definition fsub :: "fl \<Rightarrow> fl \<Rightarrow> fl" where
  "fsub a b = fadd a (fneg b)"

definition inf_of_sign :: "bool \<Rightarrow> fl" where
  "inf_of_sign positive = (if positive then PInf else NInf)"

fun fmul :: "fl \<Rightarrow> fl \<Rightarrow> fl" where
  "fmul NaN _ = NaN"
| "fmul _ NaN = NaN"
| "fmul (Fin a) (Fin b) = Fin (round_double (round_double a * round_double b))"
| "fmul (Fin a) PInf = (if round_double a = 0 then NaN else inf_of_sign (0 < a))"
| "fmul (Fin a) NInf = (if round_double a = 0 then NaN else inf_of_sign (a < 0))"
| "fmul PInf (Fin b) = (if round_double b = 0 then NaN else inf_of_sign (0 < b))"
| "fmul NInf (Fin b) = (if round_double b = 0 then NaN else inf_of_sign (b < 0))"
| "fmul PInf PInf = PInf"
| "fmul NInf NInf = PInf"
| "fmul PInf NInf = NInf"
| "fmul NInf PInf = NInf"

text \<open>numpy's true division: a zero divisor gives an infinity, or not-a-number for 0/0.\<close>

fun fdiv :: "fl \<Rightarrow> fl \<Rightarrow> fl" where
  "fdiv NaN _ = NaN"
| "fdiv _ NaN = NaN"
| "fdiv (Fin a) (Fin b) =
     (if round_double b = 0
      then (if round_double a = 0 then NaN else inf_of_sign (0 < a))
      else Fin (round_double (round_double a / round_double b)))"
| "fdiv (Fin a) PInf = Fin 0"
| "fdiv (Fin a) NInf = Fin 0"
| "fdiv PInf (Fin b) = inf_of_sign (0 \<le> b)"
| "fdiv NInf (Fin b) = inf_of_sign (b < 0)"
| "fdiv PInf PInf = NaN"
| "fdiv PInf NInf = NaN"
| "fdiv NInf PInf = NaN"
| "fdiv NInf NInf = NaN"

text \<open>Comparison: every comparison with not-a-number is false.\<close>

fun flt :: "fl \<Rightarrow> fl \<Rightarrow> bool" where
  "flt NaN _ = False"
| "flt _ NaN = False"
| "flt (Fin a) (Fin b) = (round_double a < round_double b)"
| "flt PInf _ = False"
| "flt _ NInf = False"
| "flt NInf _ = True"
| "flt _ PInf = True"

definition fgt :: "fl \<Rightarrow> fl \<Rightarrow> bool" where
  "fgt a b = flt b a"

fun fge :: "fl \<Rightarrow> fl \<Rightarrow> bool" where
  "fge NaN _ = False"
| "fge _ NaN = False"
| "fge a b = (\<not> flt a b)"

fun is_finite :: "fl \<Rightarrow> bool" where
  "is_finite (Fin _) = True"
| "is_finite _ = False"

text \<open>
  \<open>round(x, n)\<close> of a numpy float is \<open>x.round(n)\<close>: for \<open>n = 0\<close> it is \<open>rint\<close>,
  otherwise numpy multiplies by \<open>10 ^ n\<close>, applies \<open>rint\<close> and divides by \<open>10 ^ n\<close>,
  each of the three steps a floating-point operation. \<open>rint\<close> rounds to an integer, a tie
  going to the even neighbour. Infinities and not-a-number are returned unchanged.
\<close>

fun frint :: "fl \<Rightarrow> fl" where
  "frint (Fin q) = Fin (of_int (round_half_even (round_double q)))"
| "frint x = x"

definition fround :: "nat \<Rightarrow> fl \<Rightarrow> fl" where
  "fround n x =
     (if n = 0 then frint x else fdiv (frint (fmul x (Fin (10 ^ n)))) (Fin (10 ^ n)))"

text \<open>
  Column reductions: \<open>Series.sum()\<close> and \<open>Series.mean()\<close> (not-a-number when empty).
  A column of integers is summed exactly. A column of floats is summed by numpy's
  \<open>pairwise_sum\<close>: fewer than 8 values are added from left to right; up to 128 values are
  added in eight interleaved running sums over the blocks of 8, the eight sums are added
  in pairs and the remaining values are added to the result; a longer column is cut in two
  parts, the first of a length that is a multiple of 8, and the sums of the parts are
  added. \<open>dadd\<close> is the addition of two doubles.
\<close>

definition isum :: "('r \<Rightarrow> int) \<Rightarrow> 'r list \<Rightarrow> int" where
  "isum col df = sum_list (map col df)"

definition dadd :: "rat \<Rightarrow> rat \<Rightarrow> rat" where
  "dadd a b = round_double (a + b)"

fun lanes :: "rat list \<Rightarrow> rat list \<Rightarrow> rat list" where
  "lanes r xs =
     (if length xs < 8 then r else lanes (map2 dadd r (take 8 xs)) (drop 8 xs))"

declare lanes.simps [simp del]

function pairwise_sum :: "rat list \<Rightarrow> rat" where
  "pairwise_sum xs =
     (let n = length xs in
      if n < 8 then foldl dadd 0 xs
      else if n \<le> 128 then
        (let r = lanes (take 8 xs) (drop 8 xs);
             res = dadd (dadd (dadd (r ! 0) (r ! 1)) (dadd (r ! 2) (r ! 3)))
                        (dadd (dadd (r ! 4) (r ! 5)) (dadd (r ! 6) (r ! 7)))
         in foldl dadd res (drop (n - n mod 8) xs))
      else
        (let n2 = n div 2 - n div 2 mod 8
         in dadd (pairwise_sum (take n2 xs)) (pairwise_sum (drop n2 xs))))"
  by pat_completeness auto

termination
  by (relation "measure length") (auto simp add: Let_def)

declare pairwise_sum.simps [simp del]

definition rsum :: "('r \<Rightarrow> rat) \<Rightarrow> 'r list \<Rightarrow> rat" where
  "rsum col df = pairwise_sum (map (\<lambda>r. round_double (col r)) df)"

definition len :: "'r list \<Rightarrow> fl" where
  "len df = fi (int (length df))"

definition rmean :: "('r \<Rightarrow> rat) \<Rightarrow> 'r list \<Rightarrow> fl" where
  "rmean col df = fdiv (Fin (rsum col df)) (len df)"

section \<open>Match records\<close>

text \<open>
  \<open>MatchRow\<close> is a row of the table after the field parsers and the numeric coercion of
  \<open>preprocess_data\<close>; \<open>MatchRecord\<close> adds the columns of \<open>add_calculated_columns\<close>.
  Only the columns read by the metrics are kept.
\<close>

record MatchRow =
  Team :: string
  Side :: string
  season :: string
  points :: int
  Goal_scored :: int
  Goal_conceded :: int
  xG :: rat
  xG_open_play :: rat
  xG_set_play :: rat
  xGOT :: rat
  Total_shots :: int
  Shots_on_target :: int
  Shots_off_target :: int
  Blocked_shots :: int
  Hit_woodwork :: int
  Shots_inside_box :: int
  Big_chances :: int
  Big_chances_missed :: int
  Corners :: int
  Passes :: int
  Own_half :: int
  Opposition_half :: int
  Touches_in_opposition_box :: int
  Tackles :: int
  Interceptions :: int
  Blocks :: int
  Clearances :: int
  Keeper_saves :: int
  possession_pct :: rat
  Accurate_passes_pct :: rat
  Accurate_long_balls_pct :: rat
  Accurate_crosses_pct :: rat
  Successful_dribbles_count :: int

record MatchRecord = MatchRow +
  xg_difference :: rat
  shot_conversion_pct :: fl
  shots_on_target_pct :: fl
  big_chance_conversion_pct :: fl
  shots_inside_box_pct :: fl
  is_win :: int
  is_draw :: int
  is_loss :: int
  is_clean_sheet :: int
  goal_difference :: int
  defensive_actions :: int
  opp_half_passes_pct :: fl
  xg_open_play_ratio :: fl
  xg_set_play_ratio :: fl
  xg_per_shot :: fl
  woodwork_rate :: fl
  blocked_shot_rate :: fl
  shots_off_target_rate :: fl
  possession_category :: "string option"

text \<open>\<open>(condition).astype(int)\<close>\<close>

definition astype_int :: "bool \<Rightarrow> int" where
  "astype_int b = (if b then 1 else 0)"

text \<open>
  \<open>np.where(den > 0, num / den * 100, 0)\<close>, for one row: numpy computes the quotient
  for every row (an infinity or not-a-number where the divisor is 0) and then selects.
\<close>

definition pct_where :: "fl \<Rightarrow> fl \<Rightarrow> fl" where
  "pct_where num den =
     (let q = fmul (fdiv num den) (Fin 100) in if flt (Fin 0) den then q else Fin 0)"

definition ratio_where :: "fl \<Rightarrow> fl \<Rightarrow> fl" where
  "ratio_where num den = (let q = fdiv num den in if flt (Fin 0) den then q else Fin 0)"

text \<open>
  \<open>pd.cut(x, bins=[0, 45, 55, 100], labels=[...])\<close>: the bins are closed on the right
  and open on the left (the defaults \<open>right=True\<close>, \<open>include_lowest=False\<close>); a value
  in no bin has no label.
\<close>

definition cut_possession :: "rat \<Rightarrow> string option" where
  "cut_possession p =
     (if 0 < p \<and> p \<le> 45 then Some ''Low (<45%)''
      else if 45 < p \<and> p \<le> 55 then Some ''Medium (45-55%)''
      else if 55 < p \<and> p \<le> 100 then Some ''High (>55%)''
      else None)"

definition calculated_columns :: "MatchRow \<Rightarrow> MatchRecord" where
  "calculated_columns r = MatchRow.extend r
     \<lparr> xg_difference = round_double (of_int (Goal_scored r) - round_double (xG r)),
       shot_conversion_pct = pct_where (fi (Goal_scored r)) (fi (Total_shots r)),
       shots_on_target_pct = pct_where (fi (Shots_on_target r)) (fi (Total_shots r)),
       big_chance_conversion_pct =
         pct_where (fi (Big_chances r - Big_chances_missed r)) (fi (Big_chances r)),
       shots_inside_box_pct = pct_where (fi (Shots_inside_box r)) (fi (Total_shots r)),
       is_win = astype_int (points r = 3),
       is_draw = astype_int (points r = 1),
       is_loss = astype_int (points r = 0),
       is_clean_sheet = astype_int (Goal_conceded r = 0),
       goal_difference = Goal_scored r - Goal_conceded r,
       defensive_actions = Tackles r + Interceptions r + Blocks r + Clearances r,
       opp_half_passes_pct = pct_where (fi (Opposition_half r)) (fi (Passes r)),
       xg_open_play_ratio = ratio_where (Fin (xG_open_play r)) (Fin (xG r)),
       xg_set_play_ratio = ratio_where (Fin (xG_set_play r)) (Fin (xG r)),
       xg_per_shot = ratio_where (Fin (xG r)) (fi (Total_shots r)),
       woodwork_rate = pct_where (fi (Hit_woodwork r)) (fi (Total_shots r)),
       blocked_shot_rate = pct_where (fi (Blocked_shots r)) (fi (Total_shots r)),
       shots_off_target_rate = pct_where (fi (Shots_off_target r)) (fi (Total_shots r)),
       possession_category = cut_possession (possession_pct r) \<rparr>"

definition add_calculated_columns :: "MatchRow list \<Rightarrow> MatchRecord list" where
  "add_calculated_columns df = map calculated_columns df"

section \<open>Python values, dictionaries and errors\<close>

text \<open>
  A metrics map is a Python \<open>dict\<close>: an association list in insertion order whose keys
  are distinct. Numbers are one constructor, since Python compares an \<open>int\<close> and a
  \<open>float\<close> by value. \<open>{}\<close> is the empty list.
\<close>

datatype pyval =
    PNum fl
  | PBool bool
  | PStr string
  | PList "pyval list"
  | PDict "(string \<times> pyval) list"

type_synonym pydict = "(string \<times> pyval) list"

datatype error = KeyError | TypeError | ValueError | OverflowError

definition bindE :: "error + 'a \<Rightarrow> ('a \<Rightarrow> error + 'b) \<Rightarrow> error + 'b" where
  "bindE m f = (case m of Inl e \<Rightarrow> Inl e | Inr x \<Rightarrow> f x)"

text \<open>\<open>d.get(k, default)\<close> and \<open>d[k]\<close>\<close>

definition dget :: "pydict \<Rightarrow> string \<Rightarrow> pyval \<Rightarrow> pyval" where
  "dget d k dflt = (case map_of d k of Some v \<Rightarrow> v | None \<Rightarrow> dflt)"

definition ditem :: "pydict \<Rightarrow> string \<Rightarrow> error + pyval" where
  "ditem d k = (case map_of d k of Some v \<Rightarrow> Inr v | None \<Rightarrow> Inl KeyError)"

text \<open>The number a value stands for in arithmetic and comparisons (\<open>True\<close> is 1).\<close>

fun num_of :: "pyval \<Rightarrow> error + fl" where
  "num_of (PNum x) = Inr x"
| "num_of (PBool b) = Inr (fi (if b then 1 else 0))"
| "num_of _ = Inl TypeError"

text \<open>Truth value of \<open>not v\<close>'s operand.\<close>

fun truthy :: "pyval \<Rightarrow> bool" where
  "truthy (PNum x) = (x \<noteq> Fin 0)"
| "truthy (PBool b) = b"
| "truthy (PStr s) = (s \<noteq> [])"
| "truthy (PList xs) = (xs \<noteq> [])"
| "truthy (PDict d) = (d \<noteq> [])"

text \<open>
  A dictionary display with \<open>**\<close> unpacking: items are stored left to right, a repeated
  key keeps its first position and takes the later value.
\<close>

definition dict_set :: "pydict \<Rightarrow> string \<times> pyval \<Rightarrow> pydict" where
  "dict_set d kv =
     (if fst kv \<in> fst ` set d
      then map (\<lambda>e. if fst e = fst kv then kv else e) d
      else d @ [kv])"

definition dict_build :: "(string \<times> pyval) list \<Rightarrow> pydict" where
  "dict_build items = foldl dict_set [] items"

section \<open>Attacking metrics (\<open>metrics/attacking.py\<close>)\<close>

definition goals_per_game :: "MatchRecord list \<Rightarrow> fl" where
  "goals_per_game df =
     (if length df = 0 then Fin 0 else fdiv (fi (isum Goal_scored df)) (len df))"

definition xg_per_game :: "MatchRecord list \<Rightarrow> fl" where
  "xg_per_game df =
     (if length df = 0 then Fin 0 else fdiv (Fin (rsum xG df)) (len df))"

definition xg_overperformance :: "MatchRecord list \<Rightarrow> fl" where
  "xg_overperformance df = fsub (fi (isum Goal_scored df)) (Fin (rsum xG df))"

definition xg_overperformance_per_game :: "MatchRecord list \<Rightarrow> fl" where
  "xg_overperformance_per_game df =
     (if length df = 0 then Fin 0 else fdiv (xg_overperformance df) (len df))"

definition shot_conversion_rate :: "MatchRecord list \<Rightarrow> fl" where
  "shot_conversion_rate df =
     (let total_shots = isum Total_shots df
      in if total_shots = 0 then Fin 0
         else fmul (fdiv (fi (isum Goal_scored df)) (fi total_shots)) (Fin 100))"

definition shots_on_target_rate :: "MatchRecord list \<Rightarrow> fl" where
  "shots_on_target_rate df =
     (let total_shots = isum Total_shots df
      in if total_shots = 0 then Fin 0
         else fmul (fdiv (fi (isum Shots_on_target df)) (fi total_shots)) (Fin 100))"

definition big_chance_conversion_rate :: "MatchRecord list \<Rightarrow> fl" where
  "big_chance_conversion_rate df =
     (let big_chances = isum Big_chances df
      in if big_chances = 0 then Fin 0
         else let scored = big_chances - isum Big_chances_missed df
              in fmul (fdiv (fi scored) (fi big_chances)) (Fin 100))"

definition shots_per_game :: "MatchRecord list \<Rightarrow> fl" where
  "shots_per_game df =
     (if length df = 0 then Fin 0 else fdiv (fi (isum Total_shots df)) (len df))"

definition shots_on_target_per_game :: "MatchRecord list \<Rightarrow> fl" where
  "shots_on_target_per_game df =
     (if length df = 0 then Fin 0 else fdiv (fi (isum Shots_on_target df)) (len df))"

definition big_chances_per_game :: "MatchRecord list \<Rightarrow> fl" where
  "big_chances_per_game df =
     (if length df = 0 then Fin 0 else fdiv (fi (isum Big_chances df)) (len df))"

definition xgot_per_game :: "MatchRecord list \<Rightarrow> fl" where
  "xgot_per_game df =
     (if length df = 0 then Fin 0 else fdiv (Fin (rsum xGOT df)) (len df))"

definition shots_inside_box_rate :: "MatchRecord list \<Rightarrow> fl" where
  "shots_inside_box_rate df =
     (let total_shots = isum Total_shots df
      in if total_shots = 0 then Fin 0
         else fmul (fdiv (fi (isum Shots_inside_box df)) (fi total_shots)) (Fin 100))"

definition get_attacking_metrics :: "MatchRecord list \<Rightarrow> pydict" where
  "get_attacking_metrics df =
     [ (''matches'', PNum (len df)),
       (''total_goals'', PNum (fi (isum Goal_scored df))),
       (''total_xg'', PNum (fround 2 (Fin (rsum xG df)))),
       (''goals_per_game'', PNum (fround 2 (goals_per_game df))),
       (''xg_per_game'', PNum (fround 2 (xg_per_game df))),
       (''xg_overperformance'', PNum (fround 2 (xg_overperformance df))),
       (''xg_overperformance_per_game'', PNum (fround 2 (xg_overperformance_per_game df))),
       (''shot_conversion_pct'', PNum (fround 1 (shot_conversion_rate df))),
       (''shots_on_target_pct'', PNum (fround 1 (shots_on_target_rate df))),
       (''big_chance_conversion_pct'', PNum (fround 1 (big_chance_conversion_rate df))),
       (''shots_per_game'', PNum (fround 1 (shots_per_game df))),
       (''shots_on_target_per_game'', PNum (fround 1 (shots_on_target_per_game df))),
       (''big_chances_per_game'', PNum (fround 2 (big_chances_per_game df))),
       (''xgot_per_game'', PNum (fround 2 (xgot_per_game df))),
       (''shots_inside_box_pct'', PNum (fround 1 (shots_inside_box_rate df))),
       (''total_big_chances'', PNum (fi (isum Big_chances df))),
       (''total_big_chances_missed'', PNum (fi (isum Big_chances_missed df))) ]"

text \<open>\<open>round(num / den * 100, 1) if den > 0 else 0\<close> and \<open>round(num / den, n) if den > 0 else 0\<close>\<close>

definition pct_or_0 :: "fl \<Rightarrow> fl \<Rightarrow> fl" where
  "pct_or_0 num den =
     (if flt (Fin 0) den then fround 1 (fmul (fdiv num den) (Fin 100)) else Fin 0)"

definition quot_or_0 :: "nat \<Rightarrow> fl \<Rightarrow> fl \<Rightarrow> fl" where
  "quot_or_0 n num den = (if flt (Fin 0) den then fround n (fdiv num den) else Fin 0)"

definition get_set_piece_metrics :: "MatchRecord list \<Rightarrow> pydict" where
  "get_set_piece_metrics df =
     (if length df = 0 then []
      else
        let total_xg = Fin (rsum xG df);
            xg_set_play = Fin (rsum xG_set_play df);
            xg_open_play = Fin (rsum xG_open_play df);
            corners = fi (isum Corners df)
        in [ (''xg_from_set_pieces'', PNum (fround 2 xg_set_play)),
             (''xg_from_open_play'', PNum (fround 2 xg_open_play)),
             (''set_piece_xg_pct'', PNum (pct_or_0 xg_set_play total_xg)),
             (''open_play_xg_pct'', PNum (pct_or_0 xg_open_play total_xg)),
             (''corners_total'', PNum corners),
             (''corners_per_game'', PNum (fround 1 (fdiv corners (len df)))),
             (''xg_per_corner'', PNum (quot_or_0 3 xg_set_play corners)),
             (''set_piece_xg_per_game'', PNum (fround 2 (fdiv xg_set_play (len df)))),
             (''open_play_xg_per_game'', PNum (fround 2 (fdiv xg_open_play (len df)))) ])"

definition get_shot_quality_metrics :: "MatchRecord list \<Rightarrow> pydict" where
  "get_shot_quality_metrics df =
     (if length df = 0 then []
      else
        let total_shots = fi (isum Total_shots df);
            total_xg = Fin (rsum xG df);
            woodwork = fi (isum Hit_woodwork df);
            blocked = fi (isum Blocked_shots df);
            off_target = fi (isum Shots_off_target df);
            on_target = fi (isum Shots_on_target df);
            goals = fi (isum Goal_scored df)
        in [ (''avg_xg_per_shot'', PNum (quot_or_0 3 total_xg total_shots)),
             (''total_shots'', PNum total_shots),
             (''woodwork_total'', PNum woodwork),
             (''woodwork_rate_pct'', PNum (pct_or_0 woodwork total_shots)),
             (''blocked_shots_total'', PNum blocked),
             (''blocked_rate_pct'', PNum (pct_or_0 blocked total_shots)),
             (''off_target_total'', PNum off_target),
             (''off_target_rate_pct'', PNum (pct_or_0 off_target total_shots)),
             (''on_target_total'', PNum on_target),
             (''on_target_rate_pct'', PNum (pct_or_0 on_target total_shots)),
             (''goals_total'', PNum goals),
             (''goal_rate_pct'', PNum (pct_or_0 goals total_shots)),
             (''potential_woodwork_goals'', PNum (fround 1 (fmul woodwork (Fin (1 / 2))))) ])"

definition outcome :: "fl \<Rightarrow> fl \<Rightarrow> pyval" where
  "outcome n total_shots = PDict [(''count'', PNum n), (''pct'', PNum (pct_or_0 n total_shots))]"

definition get_shot_outcome_breakdown :: "MatchRecord list \<Rightarrow> pydict" where
  "get_shot_outcome_breakdown df =
     (if length df = 0 then []
      else
        let total_shots = fi (isum Total_shots df);
            goals = fi (isum Goal_scored df);
            saved = fsub (fi (isum Shots_on_target df)) goals;
            blocked = fi (isum Blocked_shots df);
            off_target = fi (isum Shots_off_target df);
            woodwork = fi (isum Hit_woodwork df)
        in [ (''Goals'', outcome goals total_shots),
             (''Saved'', outcome saved total_shots),
             (''Blocked'', outcome blocked total_shots),
             (''Off Target'', outcome off_target total_shots),
             (''Woodwork'', outcome woodwork total_shots) ])"

section \<open>Defensive metrics (\<open>metrics/defensive.py\<close>)\<close>

definition goals_conceded_per_game :: "MatchRecord list \<Rightarrow> fl" where
  "goals_conceded_per_game df =
     (if length df = 0 then Fin 0 else fdiv (fi (isum Goal_conceded df)) (len df))"

definition clean_sheets :: "MatchRecord list \<Rightarrow> int" where
  "clean_sheets df = isum (\<lambda>r. astype_int (Goal_conceded r = 0)) df"

definition clean_sheet_percentage :: "MatchRecord list \<Rightarrow> fl" where
  "clean_sheet_percentage df =
     (if length df = 0 then Fin 0
      else fmul (fdiv (fi (clean_sheets df)) (len df)) (Fin 100))"

definition tackles_per_game :: "MatchRecord list \<Rightarrow> fl" where
  "tackles_per_game df =
     (if length df = 0 then Fin 0 else fdiv (fi (isum Tackles df)) (len df))"

definition interceptions_per_game :: "MatchRecord list \<Rightarrow> fl" where
  "interceptions_per_game df =
     (if length df = 0 then Fin 0 else fdiv (fi (isum Interceptions df)) (len df))"

definition blocks_per_game :: "MatchRecord list \<Rightarrow> fl" where
  "blocks_per_game df =
     (if length df = 0 then Fin 0 else fdiv (fi (isum Blocks df)) (len df))"

definition clearances_per_game :: "MatchRecord list \<Rightarrow> fl" where
  "clearances_per_game df =
     (if length df = 0 then Fin 0 else fdiv (fi (isum Clearances df)) (len df))"

definition defensive_actions_per_game :: "MatchRecord list \<Rightarrow> fl" where
  "defensive_actions_per_game df =
     (if length df = 0 then Fin 0
      else
        let total = isum Tackles df + isum Interceptions df + isum Blocks df + isum Clearances df
        in fdiv (fi total) (len df))"

definition saves_per_game :: "MatchRecord list \<Rightarrow> fl" where
  "saves_per_game df =
     (if length df = 0 then Fin 0 else fdiv (fi (isum Keeper_saves df)) (len df))"

definition get_defensive_metrics :: "MatchRecord list \<Rightarrow> pydict" where
  "get_defensive_metrics df =
     [ (''matches'', PNum (len df)),
       (''total_goals_conceded'', PNum (fi (isum Goal_conceded df))),
       (''goals_conceded_per_game'', PNum (fround 2 (goals_conceded_per_game df))),
       (''clean_sheets'', PNum (fi (clean_sheets df))),
       (''clean_sheet_pct'', PNum (fround 1 (clean_sheet_percentage df))),
       (''tackles_per_game'', PNum (fround 1 (tackles_per_game df))),
       (''interceptions_per_game'', PNum (fround 1 (interceptions_per_game df))),
       (''blocks_per_game'', PNum (fround 1 (blocks_per_game df))),
       (''clearances_per_game'', PNum (fround 1 (clearances_per_game df))),
       (''defensive_actions_per_game'', PNum (fround 1 (defensive_actions_per_game df))),
       (''saves_per_game'', PNum (fround 1 (saves_per_game df))),
       (''total_tackles'', PNum (fi (isum Tackles df))),
       (''total_interceptions'', PNum (fi (isum Interceptions df))),
       (''total_blocks'', PNum (fi (isum Blocks df))),
       (''total_clearances'', PNum (fi (isum Clearances df))) ]"

section \<open>Possession metrics (\<open>metrics/possession.py\<close>)\<close>

text \<open>
  The columns \<open>Accurate passes_pct\<close>, \<open>Accurate long balls_pct\<close>,
  \<open>Accurate crosses_pct\<close> and \<open>Successful dribbles_count\<close> are always present in a
  \<open>MatchRecord\<close>, so the tests \<open>"..." not in df.columns\<close> are false.
\<close>

definition average_possession :: "MatchRecord list \<Rightarrow> fl" where
  "average_possession df = (if length df = 0 then Fin 0 else rmean possession_pct df)"

definition passes_per_game :: "MatchRecord list \<Rightarrow> fl" where
  "passes_per_game df =
     (if length df = 0 then Fin 0 else fdiv (fi (isum Passes df)) (len df))"

definition pass_accuracy :: "MatchRecord list \<Rightarrow> fl" where
  "pass_accuracy df =
     (if length df = 0 then Fin 0 else fmul (rmean Accurate_passes_pct df) (Fin 100))"

definition opposition_half_passes_per_game :: "MatchRecord list \<Rightarrow> fl" where
  "opposition_half_passes_per_game df =
     (if length df = 0 then Fin 0 else fdiv (fi (isum Opposition_half df)) (len df))"

definition own_half_passes_per_game :: "MatchRecord list \<Rightarrow> fl" where
  "own_half_passes_per_game df =
     (if length df = 0 then Fin 0 else fdiv (fi (isum Own_half df)) (len df))"

definition long_ball_accuracy :: "MatchRecord list \<Rightarrow> fl" where
  "long_ball_accuracy df =
     (if length df = 0 then Fin 0 else fmul (rmean Accurate_long_balls_pct df) (Fin 100))"

definition cross_accuracy :: "MatchRecord list \<Rightarrow> fl" where
  "cross_accuracy df =
     (if length df = 0 then Fin 0 else fmul (rmean Accurate_crosses_pct df) (Fin 100))"

definition touches_in_box_per_game :: "MatchRecord list \<Rightarrow> fl" where
  "touches_in_box_per_game df =
     (if length df = 0 then Fin 0
      else fdiv (fi (isum Touches_in_opposition_box df)) (len df))"

definition corners_per_game :: "MatchRecord list \<Rightarrow> fl" where
  "corners_per_game df =
     (if length df = 0 then Fin 0 else fdiv (fi (isum Corners df)) (len df))"

definition successful_dribbles_per_game :: "MatchRecord list \<Rightarrow> fl" where
  "successful_dribbles_per_game df =
     (if length df = 0 then Fin 0
      else fdiv (fi (isum Successful_dribbles_count df)) (len df))"

definition get_possession_metrics :: "MatchRecord list \<Rightarrow> pydict" where
  "get_possession_metrics df =
     [ (''matches'', PNum (len df)),
       (''avg_possession'', PNum (fround 1 (average_possession df))),
       (''passes_per_game'', PNum (fround 0 (passes_per_game df))),
       (''pass_accuracy_pct'', PNum (fround 1 (pass_accuracy df))),
       (''opp_half_passes_per_game'', PNum (fround 0 (opposition_half_passes_per_game df))),
       (''own_half_passes_per_game'', PNum (fround 0 (own_half_passes_per_game df))),
       (''long_ball_accuracy_pct'', PNum (fround 1 (long_ball_accuracy df))),
       (''cross_accuracy_pct'', PNum (fround 1 (cross_accuracy df))),
       (''touches_in_box_per_game'', PNum (fround 1 (touches_in_box_per_game df))),
       (''corners_per_game'', PNum (fround 1 (corners_per_game df))),
       (''successful_dribbles_per_game'', PNum (fround 1 (successful_dribbles_per_game df))),
       (''total_passes'', PNum (fi (isum Passes df))),
       (''total_corners'', PNum (fi (isum Corners df))) ]"

text \<open>\<open>sub[col].sum() / len(sub) if len(sub) > 0 else 0\<close>, and the same times 100\<close>

definition per_game_or_0 :: "('r \<Rightarrow> int) \<Rightarrow> 'r list \<Rightarrow> fl" where
  "per_game_or_0 col sub =
     (if 0 < length sub then fdiv (fi (isum col sub)) (len sub) else Fin 0)"

definition rate_or_0 :: "('r \<Rightarrow> int) \<Rightarrow> 'r list \<Rightarrow> fl" where
  "rate_or_0 col sub =
     (if 0 < length sub then fmul (fdiv (fi (isum col sub)) (len sub)) (Fin 100) else Fin 0)"

definition get_possession_effectiveness :: "MatchRecord list \<Rightarrow> pydict" where
  "get_possession_effectiveness df =
     (if length df = 0 then []
      else
        let high_poss = filter (\<lambda>r. 55 \<le> possession_pct r) df;
            medium_poss = filter (\<lambda>r. 45 \<le> possession_pct r \<and> possession_pct r < 55) df;
            low_poss = filter (\<lambda>r. possession_pct r < 45) df;
            high_poss_ppg = per_game_or_0 points high_poss;
            medium_poss_ppg = per_game_or_0 points medium_poss;
            low_poss_ppg = per_game_or_0 points low_poss;
            high_poss_win_rate = rate_or_0 is_win high_poss;
            low_poss_win_rate = rate_or_0 is_win low_poss;
            total_xg = Fin (rsum xG df);
            avg_possession = rmean possession_pct df;
            xg_per_possession_pct =
              (if flt (Fin 0) avg_possession
               then fdiv total_xg (fmul avg_possession (len df)) else Fin 0);
            total_touches = fi (isum Touches_in_opposition_box df);
            touches_per_xg =
              (if flt (Fin 0) total_xg then fdiv total_touches total_xg else Fin 0)
        in [ (''high_possession_games'', PNum (len high_poss)),
             (''high_possession_ppg'', PNum (fround 2 high_poss_ppg)),
             (''high_possession_win_rate'', PNum (fround 1 high_poss_win_rate)),
             (''medium_possession_games'', PNum (len medium_poss)),
             (''medium_possession_ppg'', PNum (fround 2 medium_poss_ppg)),
             (''low_possession_games'', PNum (len low_poss)),
             (''low_possession_ppg'', PNum (fround 2 low_poss_ppg)),
             (''low_possession_win_rate'', PNum (fround 1 low_poss_win_rate)),
             (''xg_per_possession_pct'', PNum (fround 3 xg_per_possession_pct)),
             (''touches_per_xg'', PNum (fround 1 touches_per_xg)),
             (''better_with_possession'', PBool (fgt high_poss_ppg low_poss_ppg)),
             (''possession_differential'', PNum (fround 2 (fsub high_poss_ppg low_poss_ppg))) ])"

section \<open>Tactical insight rules\<close>

text \<open>
  An insight is the dictionary \<open>{"title", "finding", "action", "severity"}\<close>. The
  finding is an f-string; it is kept as its parts, a formatted value as the value and its
  format specification, since the rendering of numbers as text is not modelled. Reading a
  missing key with \<open>d[k]\<close> inside the f-string raises \<open>KeyError\<close>.
\<close>

datatype fpart = Txt string | Fmt string pyval

record insight =
  title :: string
  finding :: "fpart list"
  action :: string
  severity :: string

definition getnum :: "pydict \<Rightarrow> string \<Rightarrow> error + fl" where
  "getnum d k = num_of (dget d k (PNum (Fin 0)))"

definition set_piece_dependency ::
  "pydict \<Rightarrow> pydict \<Rightarrow> string \<Rightarrow> string \<Rightarrow> error + insight list" where
  "set_piece_dependency team_sp comp_sp team_name comparison_name =
     bindE (getnum team_sp ''set_piece_xg_pct'') (\<lambda>a.
     bindE (getnum comp_sp ''set_piece_xg_pct'') (\<lambda>b.
       if fgt a (fadd b (Fin 5)) then
         bindE (ditem team_sp ''set_piece_xg_pct'') (\<lambda>tv.
         bindE (ditem comp_sp ''set_piece_xg_pct'') (\<lambda>cv.
         bindE (num_of tv) (\<lambda>t.
           Inr [\<lparr> title = ''Set Piece Dependency'',
                  finding = [Txt team_name, Txt '': '', Fmt [] tv,
                             Txt ''% of xG from set pieces vs '', Txt comparison_name,
                             Txt '': '', Fmt [] cv, Txt ''%''],
                  action = ''Improve open play build-up patterns and create more chances from possession'',
                  severity = (if fgt t (Fin 35) then ''high'' else ''medium'') \<rparr>])))
       else Inr []))"

definition shot_quality_gap ::
  "pydict \<Rightarrow> pydict \<Rightarrow> string \<Rightarrow> string \<Rightarrow> error + insight list" where
  "shot_quality_gap team_sq comp_sq team_name comparison_name =
     bindE (getnum team_sq ''avg_xg_per_shot'') (\<lambda>a.
     bindE (getnum comp_sq ''avg_xg_per_shot'') (\<lambda>b.
       let xg_per_shot_diff = fsub a b in
       if flt xg_per_shot_diff (Fin (- (2 / 100))) then
         bindE (ditem team_sq ''avg_xg_per_shot'') (\<lambda>tv.
         bindE (ditem comp_sq ''avg_xg_per_shot'') (\<lambda>cv.
           Inr [\<lparr> title = ''Shot Quality Gap'',
                  finding = [Txt team_name, Txt '': '', Fmt ''.3f'' tv, Txt '' xG/shot vs '',
                             Txt comparison_name, Txt '': '', Fmt ''.3f'' cv, Txt '' xG/shot''],
                  action = ''Focus on creating higher quality chances rather than volume of shots'',
                  severity = (if flt xg_per_shot_diff (Fin (- (3 / 100)))
                              then ''high'' else ''medium'') \<rparr>]))
       else Inr []))"

definition shots_being_blocked ::
  "pydict \<Rightarrow> pydict \<Rightarrow> string \<Rightarrow> string \<Rightarrow> error + insight list" where
  "shots_being_blocked team_sq comp_sq team_name comparison_name =
     bindE (getnum team_sq ''blocked_rate_pct'') (\<lambda>a.
     bindE (getnum comp_sq ''blocked_rate_pct'') (\<lambda>b.
       let blocked_diff = fsub a b in
       if fgt blocked_diff (Fin 5) then
         bindE (ditem team_sq ''blocked_rate_pct'') (\<lambda>tv.
         bindE (ditem comp_sq ''blocked_rate_pct'') (\<lambda>cv.
           Inr [\<lparr> title = ''Shots Being Blocked'',
                  finding = [Txt team_name, Txt '': '', Fmt [] tv, Txt ''% blocked vs '',
                             Txt comparison_name, Txt '': '', Fmt [] cv, Txt ''%''],
                  action = ''Work on quicker shooting and less telegraphed attempts'',
                  severity = ''medium'' \<rparr>]))
       else Inr []))"

definition finishing_luck :: "pydict \<Rightarrow> string \<Rightarrow> error + insight list" where
  "finishing_luck team_sq team_name =
     bindE (getnum team_sq ''woodwork_total'') (\<lambda>a.
       if fgt a (Fin 5) then
         bindE (ditem team_sq ''woodwork_total'') (\<lambda>wv.
         bindE (ditem team_sq ''potential_woodwork_goals'') (\<lambda>gv.
           Inr [\<lparr> title = ''Finishing Luck'',
                  finding = [Txt team_name, Txt '' hit woodwork '', Fmt [] wv,
                             Txt '' times (est. '', Fmt [] gv, Txt '' unlucky goals)''],
                  action = ''Finishing execution is good - variance should correct over time'',
                  severity = ''info'' \<rparr>]))
       else Inr [])"

definition open_play_creation ::
  "pydict \<Rightarrow> pydict \<Rightarrow> string \<Rightarrow> string \<Rightarrow> error + insight list" where
  "open_play_creation team_sp comp_sp team_name comparison_name =
     bindE (getnum team_sp ''open_play_xg_per_game'') (\<lambda>a.
     bindE (getnum comp_sp ''open_play_xg_per_game'') (\<lambda>b.
       if flt a (fsub b (Fin (3 / 10))) then
         bindE (ditem team_sp ''open_play_xg_per_game'') (\<lambda>tv.
         bindE (ditem comp_sp ''open_play_xg_per_game'') (\<lambda>cv.
           Inr [\<lparr> title = ''Open Play Creation'',
                  finding = [Txt team_name, Txt '': '', Fmt [] tv, Txt '' open play xG/game vs '',
                             Txt comparison_name, Txt '': '', Fmt [] cv],
                  action = ''Tactical focus needed on build-up play and creating chances from possession'',
                  severity = ''high'' \<rparr>]))
       else Inr []))"

definition get_tactical_insights ::
  "MatchRecord list \<Rightarrow> MatchRecord list \<Rightarrow> string \<Rightarrow> string \<Rightarrow> error + insight list" where
  "get_tactical_insights team_df comparison_df team_name comparison_name =
     (let team_sp = get_set_piece_metrics team_df;
          comp_sp = get_set_piece_metrics comparison_df;
          team_sq = get_shot_quality_metrics team_df;
          comp_sq = get_shot_quality_metrics comparison_df
      in bindE (set_piece_dependency team_sp comp_sp team_name comparison_name) (\<lambda>i1.
         bindE (shot_quality_gap team_sq comp_sq team_name comparison_name) (\<lambda>i2.
         bindE (shots_being_blocked team_sq comp_sq team_name comparison_name) (\<lambda>i3.
         bindE (finishing_luck team_sq team_name) (\<lambda>i4.
         bindE (open_play_creation team_sp comp_sp team_name comparison_name) (\<lambda>i5.
           Inr (i1 @ i2 @ i3 @ i4 @ i5)))))))"

definition counter_attack :: "pydict \<Rightarrow> string \<Rightarrow> error + insight list" where
  "counter_attack team_eff team_name =
     (if \<not> truthy (dget team_eff ''better_with_possession'' (PBool True)) then
        bindE (ditem team_eff ''low_possession_ppg'') (\<lambda>lv.
        bindE (ditem team_eff ''high_possession_ppg'') (\<lambda>hv.
          Inr [\<lparr> title = ''Counter-Attack Style More Effective'',
                 finding = [Txt team_name, Txt '' earns '', Fmt [] lv,
                            Txt '' PPG with low possession vs '', Fmt [] hv,
                            Txt '' PPG with high possession''],
                 action = ''Consider tactical shift towards counter-attacking style'',
                 severity = ''high'' \<rparr>]))
      else Inr [])"

definition possession_efficiency_gap ::
  "pydict \<Rightarrow> pydict \<Rightarrow> string \<Rightarrow> string \<Rightarrow> error + insight list" where
  "possession_efficiency_gap team_eff comp_eff team_name comparison_name =
     (let team_xg_eff = dget team_eff ''xg_per_possession_pct'' (PNum (Fin 0));
          comp_xg_eff = dget comp_eff ''xg_per_possession_pct'' (PNum (Fin 0))
      in bindE (num_of team_xg_eff) (\<lambda>a.
         bindE (num_of comp_xg_eff) (\<lambda>b.
           if flt a (fmul b (Fin (8 / 10))) then
             Inr [\<lparr> title = ''Possession Efficiency Gap'',
                    finding = [Txt team_name, Txt '': '', Fmt ''.3f'' team_xg_eff,
                               Txt '' xG per possession % vs '', Txt comparison_name,
                               Txt '': '', Fmt ''.3f'' comp_xg_eff],
                    action = ''Possession is not translating to chances - work on final third penetration'',
                    severity = ''medium'' \<rparr>]
           else Inr [])))"

definition high_possession_not_converting :: "pydict \<Rightarrow> string \<Rightarrow> error + insight list" where
  "high_possession_not_converting team_eff team_name =
     bindE (getnum team_eff ''high_possession_win_rate'') (\<lambda>w.
       if flt w (Fin 50) then
         bindE (getnum team_eff ''high_possession_games'') (\<lambda>g.
           if fge g (Fin 5) then
             bindE (ditem team_eff ''high_possession_win_rate'') (\<lambda>wv.
               Inr [\<lparr> title = ''High Possession Not Converting to Wins'',
                      finding = [Txt team_name, Txt '' wins only '', Fmt [] wv,
                                 Txt ''% when dominating possession (>55%)''],
                      action = ''Add more directness and urgency when in control of possession'',
                      severity = ''high'' \<rparr>])
           else Inr [])
       else Inr [])"

definition get_possession_tactical_insights ::
  "MatchRecord list \<Rightarrow> MatchRecord list \<Rightarrow> string \<Rightarrow> string \<Rightarrow> error + insight list" where
  "get_possession_tactical_insights team_df comparison_df team_name comparison_name =
     (let team_eff = get_possession_effectiveness team_df;
          comp_eff = get_possession_effectiveness comparison_df
      in bindE (counter_attack team_eff team_name) (\<lambda>i1.
         bindE (possession_efficiency_gap team_eff comp_eff team_name comparison_name) (\<lambda>i2.
         bindE (high_possession_not_converting team_eff team_name) (\<lambda>i3.
           Inr (i1 @ i2 @ i3)))))"

section \<open>Aggregation layer (\<open>metrics/aggregators.py\<close>)\<close>

definition get_season_summary :: "MatchRecord list \<Rightarrow> pydict" where
  "get_season_summary df =
     (if length df = 0 then []
      else dict_build
        ([ (''matches_played'', PNum (len df)),
           (''wins'', PNum (fi (isum is_win df))),
           (''draws'', PNum (fi (isum is_draw df))),
           (''losses'', PNum (fi (isum is_loss df))),
           (''total_points'', PNum (fi (isum points df))),
           (''points_per_game'', PNum (fround 2 (fdiv (fi (isum points df)) (len df)))),
           (''goals_scored'', PNum (fi (isum Goal_scored df))),
           (''goals_conceded'', PNum (fi (isum Goal_conceded df))),
           (''goal_difference'', PNum (fi (isum Goal_scored df - isum Goal_conceded df))),
           (''clean_sheets'', PNum (fi (isum is_clean_sheet df))),
           (''home_wins'', PNum (fi (isum is_win (filter (\<lambda>r. Side r = ''Home'') df)))),
           (''away_wins'', PNum (fi (isum is_win (filter (\<lambda>r. Side r = ''Away'') df)))) ]
         @ get_attacking_metrics df
         @ get_defensive_metrics df
         @ get_possession_metrics df))"

definition side_stats :: "MatchRecord list \<Rightarrow> pyval" where
  "side_stats sub = PDict
     [ (''matches'', PNum (len sub)),
       (''wins'', PNum (fi (isum is_win sub))),
       (''draws'', PNum (fi (isum is_draw sub))),
       (''losses'', PNum (fi (isum is_loss sub))),
       (''points'', PNum (fi (isum points sub))),
       (''points_per_game'',
          PNum (if 0 < length sub then fround 2 (fdiv (fi (isum points sub)) (len sub)) else Fin 0)),
       (''goals_scored'', PNum (fi (isum Goal_scored sub))),
       (''goals_conceded'', PNum (fi (isum Goal_conceded sub))),
       (''clean_sheets'', PNum (fi (isum is_clean_sheet sub))),
       (''avg_possession'',
          PNum (if 0 < length sub then fround 1 (rmean possession_pct sub) else Fin 0)) ]"

definition get_home_away_split :: "MatchRecord list \<Rightarrow> pydict" where
  "get_home_away_split df =
     (let home_df = filter (\<lambda>r. Side r = ''Home'') df;
          away_df = filter (\<lambda>r. Side r = ''Away'') df
      in [ (''home'', side_stats home_df), (''away'', side_stats away_df) ])"

text \<open>
  \<open>df.tail(n)\<close>: the last \<open>n\<close> rows in the order of the table, all of them when there
  are fewer; no row for \<open>n = 0\<close>; for a negative \<open>n\<close>, all rows but the first \<open>-n\<close>.
\<close>

definition df_tail :: "int \<Rightarrow> 'r list \<Rightarrow> 'r list" where
  "df_tail n df =
     (if n = 0 then []
      else if 0 < n then drop (length df - nat n) df
      else drop (nat (- n)) df)"

definition form_letter :: "MatchRecord \<Rightarrow> string" where
  "form_letter row = (if is_win row = 1 then ''W'' else if is_draw row = 1 then ''D'' else ''L'')"

definition get_form :: "MatchRecord list \<Rightarrow> int \<Rightarrow> pydict" where
  "get_form df last_n =
     (let recent = df_tail last_n df;
          form_list = map form_letter recent
      in [ (''form_string'', PStr (concat form_list)),
           (''form_list'', PList (map PStr form_list)),
           (''points'', PNum (fi (isum points recent))),
           (''max_points'', PNum (fi (last_n * 3))),
           (''goals_scored'', PNum (fi (isum Goal_scored recent))),
           (''goals_conceded'', PNum (fi (isum Goal_conceded recent))),
           (''wins'', PNum (fi (isum is_win recent))),
           (''draws'', PNum (fi (isum is_draw recent))),
           (''losses'', PNum (fi (isum is_loss recent))) ])"

text \<open>
  The league table. \<open>Standing\<close> is a row of the grouped table with the columns
  \<open>Team, Points, GF, GA, W, D, L, GD, P\<close>; \<open>StandingsRow\<close> adds \<open>Position\<close>.
\<close>

record Standing =
  row_Team :: string
  row_Points :: int
  row_GF :: int
  row_GA :: int
  row_W :: int
  row_D :: int
  row_L :: int
  row_GD :: int
  row_P :: int

record StandingsRow = Standing +
  row_Position :: int

text \<open>
  \<open>df.groupby("Team").agg({... "sum"}).reset_index()\<close>: one row per team, the teams in
  ascending order of their names, each column summed over the team's rows; then the columns
  \<open>GD\<close> and \<open>P\<close>.
\<close>

definition group_keys :: "MatchRecord list \<Rightarrow> string list" where
  "group_keys df = sort (remdups (map Team df))"

definition team_standing :: "MatchRecord list \<Rightarrow> string \<Rightarrow> Standing" where
  "team_standing df t =
     (let g = filter (\<lambda>r. Team r = t) df;
          gf = isum Goal_scored g; ga = isum Goal_conceded g;
          w = isum is_win g; d = isum is_draw g; l = isum is_loss g
      in \<lparr> row_Team = t, row_Points = isum points g, row_GF = gf, row_GA = ga,
           row_W = w, row_D = d, row_L = l, row_GD = gf - ga, row_P = w + d + l \<rparr>)"

text \<open>
  \<open>sort_values(["Points", "GD", "GF"], ascending=[False, False, False])\<close>: pandas sorts
  on several columns with a stable lexicographic sort, a descending column by its reversed
  rank; rows equal on all three columns keep their order.
\<close>

definition standings_key :: "'a Standing_scheme \<Rightarrow> int \<times> int \<times> int" where
  "standings_key s = (- row_Points s, - row_GD s, - row_GF s)"

text \<open>
  \<open>if season: df = df[df["season"] == season]\<close>: the argument is \<open>None\<close> by default, and
  an empty string is false as well.
\<close>

definition season_rows :: "MatchRecord list \<Rightarrow> string option \<Rightarrow> MatchRecord list" where
  "season_rows df season_arg =
     (case season_arg of
        None \<Rightarrow> df
      | Some s \<Rightarrow> if s \<noteq> [] then filter (\<lambda>r. season r = s) df else df)"

definition sorted_standings :: "MatchRecord list \<Rightarrow> Standing list" where
  "sorted_standings df = sort_key standings_key (map (team_standing df) (group_keys df))"

text \<open>\<open>standings["Position"] = standings.index + 1\<close>, after the index was reset.\<close>

definition calculate_league_position ::
  "MatchRecord list \<Rightarrow> string option \<Rightarrow> StandingsRow list" where
  "calculate_league_position df0 season_arg =
     map (\<lambda>(i, s). Standing.extend s \<lparr> row_Position = int i + 1 \<rparr>)
         (enumerate 0 (sorted_standings (season_rows df0 season_arg)))"

section \<open>Field parser (\<open>data/preprocessor.py\<close>)\<close>

text \<open>
  Strings are lists of characters with codes below 256. \<open>is_space\<close> is the white space
  of \<open>str.strip()\<close> and of \<open>\s\<close> in that range, \<open>is_digit\<close> the digits of \<open>\d\<close>.
\<close>

definition is_digit :: "char \<Rightarrow> bool" where
  "is_digit c = (48 \<le> (of_char c :: nat) \<and> (of_char c :: nat) \<le> 57)"

definition is_space :: "char \<Rightarrow> bool" where
  "is_space c = ((of_char c :: nat) \<in> {9, 10, 11, 12, 13, 28, 29, 30, 31, 32, 133, 160})"

definition strip :: "string \<Rightarrow> string" where
  "strip s = rev (dropWhile is_space (rev (dropWhile is_space s)))"

definition digits_val :: "string \<Rightarrow> nat" where
  "digits_val ds = foldl (\<lambda>a c. 10 * a + (of_char c - 48)) 0 ds"

text \<open>
  \<open>re.match(r"(\d+)\s*\((\d+)%\)", s)\<close>: a match at the start of \<open>s\<close> (text after the
  closing parenthesis is allowed); the result is the two groups.
\<close>

definition match_count_pct :: "string \<Rightarrow> (string \<times> string) option" where
  "match_count_pct s =
     (let g1 = takeWhile is_digit s; r1 = dropWhile is_space (dropWhile is_digit s)
      in if g1 = [] then None
         else (case r1 of
                 [] \<Rightarrow> None
               | c # r2 \<Rightarrow>
                   if c \<noteq> CHR ''('' then None
                   else
                     let g2 = takeWhile is_digit r2; r3 = dropWhile is_digit r2
                     in if g2 = [] then None
                        else (case r3 of
                                p # q # _ \<Rightarrow>
                                  if p = CHR ''%'' \<and> q = CHR '')'' then Some (g1, g2) else None
                              | _ \<Rightarrow> None)))"

text \<open>
  \<open>float(s)\<close>. \<open>digitpart\<close> reads digits with single underscores between them and
  returns the digits and the rest. \<open>float_number\<close> is the value of
  \<open>[digits][.digits][(e|E)[sign]digits]\<close> with at least one digit before the exponent,
  \<open>None\<close> for any other text. \<open>to_double\<close> is the double that a decimal text
  denotes: its value rounded to the nearest double, and an infinity when the rounded value
  is beyond the largest double, that is when it reaches \<open>2 ^ 1024\<close>.
\<close>

fun digitpart :: "string \<Rightarrow> string \<times> string" where
  "digitpart [] = ([], [])"
| "digitpart [c] = (if is_digit c then ([c], []) else ([], [c]))"
| "digitpart (c # u # cs) =
     (if \<not> is_digit c then ([], c # u # cs)
      else if u = CHR ''_'' then
        (case cs of
           [] \<Rightarrow> ([c], u # cs)
         | d # ds \<Rightarrow>
             if is_digit d then (let (a, r) = digitpart cs in (c # a, r)) else ([c], u # cs))
      else (let (a, r) = digitpart (u # cs) in (c # a, r)))"

definition split_sign :: "string \<Rightarrow> bool \<times> string" where
  "split_sign s =
     (case s of
        [] \<Rightarrow> (False, [])
      | c # cs \<Rightarrow>
          if c = CHR ''-'' then (True, cs) else if c = CHR ''+'' then (False, cs) else (False, s))"

definition float_number :: "string \<Rightarrow> rat option" where
  "float_number u =
     (let (ip, r1) = digitpart u;
          (fp, r2) = (case r1 of
                        [] \<Rightarrow> ([], r1)
                      | c # cs \<Rightarrow> if c = CHR ''.'' then digitpart cs else ([], r1));
          m = of_nat (digits_val ip) + of_nat (digits_val fp) / 10 ^ length fp
      in if ip = [] \<and> fp = [] then None
         else (case r2 of
                 [] \<Rightarrow> Some m
               | c # cs \<Rightarrow>
                   if c = CHR ''e'' \<or> c = CHR ''E'' then
                     (let (eneg, r3) = split_sign cs; (ed, r4) = digitpart r3
                      in if ed = [] \<or> r4 \<noteq> [] then None
                         else Some (if eneg then m / 10 ^ digits_val ed
                                    else m * 10 ^ digits_val ed))
                   else None))"

definition to_double :: "rat \<Rightarrow> fl" where
  "to_double q =
     (let r = round_double q in if 2 ^ 1024 \<le> \<bar>r\<bar> then inf_of_sign (0 < q) else Fin r)"

definition lower :: "char \<Rightarrow> char" where
  "lower c =
     (if 65 \<le> (of_char c :: nat) \<and> (of_char c :: nat) \<le> 90
      then char_of ((of_char c :: nat) + 32) else c)"

definition py_float :: "string \<Rightarrow> fl option" where
  "py_float s =
     (let (neg, u) = split_sign (strip s); l = map lower u
      in if l = ''inf'' \<or> l = ''infinity'' then Some (inf_of_sign (\<not> neg))
         else if l = ''nan'' then Some NaN
         else (case float_number u of
                 None \<Rightarrow> None
               | Some q \<Rightarrow> Some (to_double (if neg then - q else q))))"

text \<open>\<open>int(x)\<close> of a finite float: truncation towards zero.\<close>

definition trunc :: "rat \<Rightarrow> int" where
  "trunc q = (if 0 \<le> q then \<lfloor>q\<rfloor> else \<lceil>q\<rceil>)"

text \<open>
  \<open>parse_percentage_string\<close>, on a string or a null (\<open>None\<close>). In the first branch
  \<open>int(match.group(1))\<close> is outside the \<open>try\<close>: the interpreter converts a text of at
  most 4300 digits (\<open>max_str_digits\<close>) and raises \<open>ValueError\<close> on a longer one;
  \<open>float\<close> has no such limit. In the last branch \<open>float\<close> raises \<open>ValueError\<close> on
  text that is no number and \<open>int\<close> raises \<open>ValueError\<close> on not-a-number, both
  caught; \<open>int\<close> of an infinity raises \<open>OverflowError\<close>, which the
  \<open>except (ValueError, TypeError)\<close> does not catch.
\<close>

definition max_str_digits :: nat where
  "max_str_digits = 4300"

definition parse_percentage_string :: "string option \<Rightarrow> error + (int \<times> fl)" where
  "parse_percentage_string v =
     (case v of
        None \<Rightarrow> Inr (0, Fin 0)
      | Some s \<Rightarrow>
          if s = [] then Inr (0, Fin 0)
          else
            let value_str = strip s
            in (case match_count_pct value_str of
                  Some (g1, g2) \<Rightarrow>
                    if max_str_digits < length g1 then Inl ValueError
                    else Inr (int (digits_val g1),
                              fdiv (to_double (of_nat (digits_val g2))) (Fin 100))
                | None \<Rightarrow>
                    (case py_float value_str of
                       None \<Rightarrow> Inr (0, Fin 0)
                     | Some NaN \<Rightarrow> Inr (0, Fin 0)
                     | Some PInf \<Rightarrow> Inl OverflowError
                     | Some NInf \<Rightarrow> Inl OverflowError
                     | Some (Fin q) \<Rightarrow> Inr (trunc q, Fin 0))))"


section \<open>Example data\<close>

text \<open>A row with every statistic zero, from which example rows are made by update.\<close>

definition blank_row :: MatchRow where
  "blank_row =
     \<lparr> Team = [], Side = [], season = [], points = 0, Goal_scored = 0, Goal_conceded = 0,
       xG = 0, xG_open_play = 0, xG_set_play = 0, xGOT = 0, Total_shots = 0,
       Shots_on_target = 0, Shots_off_target = 0, Blocked_shots = 0, Hit_woodwork = 0,
       Shots_inside_box = 0, Big_chances = 0, Big_chances_missed = 0, Corners = 0,
       Passes = 0, Own_half = 0, Opposition_half = 0, Touches_in_opposition_box = 0,
       Tackles = 0, Interceptions = 0, Blocks = 0, Clearances = 0, Keeper_saves = 0,
       possession_pct = 0, Accurate_passes_pct = 0, Accurate_long_balls_pct = 0,
       Accurate_crosses_pct = 0, Successful_dribbles_count = 0 \<rparr>"

text \<open>A match of a team in a season: its points and the goals scored and conceded.\<close>

definition match_row :: "string \<Rightarrow> string \<Rightarrow> int \<Rightarrow> int \<Rightarrow> int \<Rightarrow> MatchRow" where
  "match_row t s p gf ga =
     blank_row\<lparr> Team := t, season := s, points := p, Goal_scored := gf, Goal_conceded := ga \<rparr>"



text \<open>Two seasons of one team: a win in the first, a draw in the second.\<close>

definition example_two_seasons :: "MatchRecord list" where
  "example_two_seasons = add_calculated_columns
     [match_row ''A'' ''2023-2024'' 3 2 0, match_row ''A'' ''2024-2025'' 1 1 1]"


section \<open>Rounding to a double\<close>

lemma pow2_pos: "0 < pow2 e"
  by (simp add: pow2_def)

lemma pow2_add: "pow2 (a + b) = pow2 a * pow2 b"
  by (simp add: pow2_def power_int_add)

lemma pow2_diff: "pow2 (a - b) = pow2 a / pow2 b"
  by (simp add: pow2_def power_int_diff)

lemma pow2_nat: "0 \<le> e \<Longrightarrow> pow2 e = 2 ^ nat e"
  by (simp add: pow2_def power_int_def)

lemma pow2_mono: "a \<le> b \<Longrightarrow> pow2 a \<le> pow2 b"
  by (simp add: pow2_def power_int_increasing)

lemma pow2_less_cancel: "pow2 a < pow2 b \<Longrightarrow> a < b"
  using pow2_mono [of b a] by (cases "a < b") auto

lemma bitlen_pow2_bounds:
  assumes "0 < a"
  shows "pow2 (bitlen a - 1) \<le> of_int a" and "of_int a < pow2 (bitlen a)"
proof -
  have p: "0 < bitlen a"
    using assms bitlen_eq_zero_iff [of a] bitlen_nonneg [of a] by linarith
  have "2 ^ nat (bitlen a - 1) \<le> a" and "a < 2 ^ nat (bitlen a)"
    using bitlen_bounds [OF assms] by simp_all
  then have "(of_int (2 ^ nat (bitlen a - 1)) :: rat) \<le> of_int a"
    and "(of_int a :: rat) < of_int (2 ^ nat (bitlen a))"
    by (simp_all only: of_int_le_iff of_int_less_iff)
  then show "pow2 (bitlen a - 1) \<le> of_int a" and "of_int a < pow2 (bitlen a)"
    using p by (simp_all add: pow2_nat)
qed

lemma ilog2_bounds:
  assumes "0 < q"
  shows "pow2 (ilog2 q) \<le> q" and "q < pow2 (ilog2 q + 1)"
proof -
  obtain a b where ab: "quotient_of q = (a, b)"
    by (cases "quotient_of q") simp
  have b: "0 < b"
    using quotient_of_denom_pos [OF ab] .
  have q: "q = of_int a / of_int b"
    using quotient_of_div [OF ab] .
  have a: "0 < a"
    using assms b by (simp add: q zero_less_divide_iff)
  define k where "k = bitlen a - bitlen b"
  have lo: "pow2 (k - 1) < q"
  proof -
    have "pow2 (k - 1) * of_int b < pow2 (k - 1) * pow2 (bitlen b)"
      using bitlen_pow2_bounds(2) [OF b] pow2_pos [of "k - 1"] by simp
    also have "\<dots> = pow2 (bitlen a - 1)"
      by (simp add: k_def pow2_add [symmetric])
    also have "\<dots> \<le> of_int a"
      using bitlen_pow2_bounds(1) [OF a] .
    finally show ?thesis
      using b by (simp add: q pos_less_divide_eq)
  qed
  have hi: "q < pow2 (k + 1)"
  proof -
    have "of_int a < pow2 (bitlen a)"
      using bitlen_pow2_bounds(2) [OF a] .
    also have "\<dots> = pow2 (k + 1) * pow2 (bitlen b - 1)"
      by (simp add: k_def pow2_add [symmetric])
    also have "\<dots> \<le> pow2 (k + 1) * of_int b"
      using bitlen_pow2_bounds(1) [OF b] pow2_pos [of "k + 1"] by simp
    finally show ?thesis
      using b by (simp add: q pos_divide_less_eq)
  qed
  have il: "ilog2 q = (if pow2 k \<le> q then k else k - 1)"
    by (simp add: ilog2_def ab k_def Let_def)
  show "pow2 (ilog2 q) \<le> q"
    using lo by (simp add: il)
  show "q < pow2 (ilog2 q + 1)"
    using hi by (simp add: il)
qed

lemma ilog2_ge: "0 < q \<Longrightarrow> pow2 k \<le> q \<Longrightarrow> k \<le> ilog2 q"
  using ilog2_bounds(2) [of q] pow2_less_cancel [of k "ilog2 q + 1"] by simp

lemma ilog2_le: "0 < q \<Longrightarrow> q < pow2 (k + 1) \<Longrightarrow> ilog2 q \<le> k"
  using ilog2_bounds(1) [of q] pow2_less_cancel [of "ilog2 q" "k + 1"] by simp

lemma round_half_even_int: "round_half_even (of_int m) = m"
  by (simp add: round_half_even_def)

lemma round_half_even_near:
  "of_int (round_half_even y) \<le> y + 1 / 2" "y - 1 / 2 \<le> of_int (round_half_even y)"
proof -
  define f where "f = \<lfloor>y\<rfloor>"
  have f: "of_int f \<le> y" "y < of_int f + 1"
    unfolding f_def by linarith+
  have r: "round_half_even y =
      (if y - of_int f < 1 / 2 then f else if 1 / 2 < y - of_int f then f + 1
       else if even f then f else f + 1)"
    by (simp add: round_half_even_def Let_def f_def)
  show "of_int (round_half_even y) \<le> y + 1 / 2"
    using f unfolding r by (simp split: if_splits)
  show "y - 1 / 2 \<le> of_int (round_half_even y)"
    using f unfolding r by (simp split: if_splits)
qed

lemma round_half_even_ge: "of_int k \<le> y \<Longrightarrow> k \<le> round_half_even y"
proof -
  assume "of_int k \<le> y"
  then have "k \<le> \<lfloor>y\<rfloor>"
    by (simp add: le_floor_iff)
  then show ?thesis
    by (simp add: round_half_even_def Let_def)
qed

lemma round_half_even_le: "y \<le> of_int k \<Longrightarrow> round_half_even y \<le> k"
proof (cases "y = of_int k")
  case True
  then show ?thesis
    by (simp add: round_half_even_int)
next
  case False
  assume "y \<le> of_int k"
  with False have "y < of_int k"
    by simp
  then have "\<lfloor>y\<rfloor> < k"
    by (simp add: floor_less_iff)
  then show ?thesis
    by (simp add: round_half_even_def Let_def)
qed

lemma round_double_0: "round_double 0 = 0"
  by (simp add: round_double_def)

lemma round_double_eq:
  "q \<noteq> 0 \<Longrightarrow>
     round_double q = of_int (round_half_even (q / pow2 (ulp_exponent q))) * pow2 (ulp_exponent q)"
  by (simp add: round_double_def Let_def)

lemma ulp_exponent_ge: "- 1074 \<le> ulp_exponent q"
  by (simp add: ulp_exponent_def)

lemma ulp_exponent_normal:
  "- 1074 < ulp_exponent q \<Longrightarrow> ulp_exponent q = ilog2 \<bar>q\<bar> - 52"
  by (simp add: ulp_exponent_def max_def split: if_splits)

lemma pow2_cancel: "pow2 e * pow2 (- e) = 1"
  using pow2_add [of e "- e"] by (simp add: pow2_def)

lemma round_double_of_int:
  assumes "\<bar>n\<bar> < 2 ^ 53"
  shows "round_double (of_int n) = of_int n"
proof (cases "n = 0")
  case True
  then show ?thesis
    by (simp add: round_double_0)
next
  case False
  define q :: rat where "q = of_int n"
  have q0: "q \<noteq> 0"
    using False by (simp add: q_def)
  have q1: "1 \<le> \<bar>q\<bar>"
    using False unfolding q_def by (simp flip: of_int_abs)
  have "\<bar>q\<bar> = of_int \<bar>n\<bar>"
    by (simp add: q_def)
  also have "\<dots> < of_int (2 ^ 53)"
    using assms by (simp only: of_int_less_iff)
  also have "\<dots> = pow2 (52 + 1)"
    by (simp add: pow2_nat)
  finally have q2: "\<bar>q\<bar> < pow2 (52 + 1)" .
  have pos: "0 < \<bar>q\<bar>"
    using q0 by simp
  have lo: "0 \<le> ilog2 \<bar>q\<bar>"
    using ilog2_ge [OF pos, of 0] q1 by (simp add: pow2_nat)
  have hi: "ilog2 \<bar>q\<bar> \<le> 52"
    using ilog2_le [OF pos q2] .
  define e where "e = ulp_exponent q"
  have e: "e = ilog2 \<bar>q\<bar> - 52"
    using lo by (simp add: e_def ulp_exponent_def)
  have e0: "0 \<le> - e"
    using hi e by simp
  have "q / pow2 e = q * pow2 (- e)"
    using pow2_cancel [of e] pow2_pos [of e] by (simp add: field_simps)
  also have "\<dots> = of_int (n * 2 ^ nat (- e))"
    using e0 by (simp add: q_def pow2_nat)
  finally have "round_half_even (q / pow2 e) = n * 2 ^ nat (- e)"
    by (simp only: round_half_even_int)
  then have "round_double q = of_int (n * 2 ^ nat (- e)) * pow2 e"
    using q0 by (simp add: round_double_eq e_def)
  also have "\<dots> = of_int n * (pow2 (- e) * pow2 e)"
    using e0 by (simp add: pow2_nat)
  also have "\<dots> = of_int n"
    using pow2_cancel [of e] by (simp add: mult.commute)
  finally show ?thesis
    by (simp add: q_def)
qed

lemma round_double_numeral:
  "(numeral k :: int) < 2 ^ 53 \<Longrightarrow> round_double (numeral k) = numeral k"
  using round_double_of_int [of "numeral k"] by simp

lemma round_double_1: "round_double 1 = 1"
  using round_double_of_int [of 1] by simp


lemma round_double_nonzero:
  assumes "1 \<le> \<bar>q\<bar>"
  shows "round_double q \<noteq> 0"
proof -
  have q0: "q \<noteq> 0" and pos: "0 < \<bar>q\<bar>"
    using assms by auto
  define e where "e = ulp_exponent q"
  have lo: "0 \<le> ilog2 \<bar>q\<bar>"
    using ilog2_ge [OF pos, of 0] assms by (simp add: pow2_nat)
  then have "e \<le> ilog2 \<bar>q\<bar>"
    by (simp add: e_def ulp_exponent_def)
  then have "pow2 e \<le> \<bar>q\<bar>"
    using pow2_mono [of e "ilog2 \<bar>q\<bar>"] ilog2_bounds(1) [OF pos] by linarith
  then have y: "1 \<le> \<bar>q / pow2 e\<bar>"
    using pow2_pos [of e] by (simp add: pos_le_divide_eq)
  have "round_half_even (q / pow2 e) \<noteq> 0"
    using round_half_even_near [of "q / pow2 e"] y by auto
  then show ?thesis
    using q0 pow2_pos [of e] by (simp add: round_double_eq e_def)
qed




lemma round_double_le_dyadic:
  assumes "0 \<le> q" and "q \<le> of_int k * pow2 j" and "k < 2 ^ 53" and "- 1074 \<le> j"
  shows "round_double q \<le> of_int k * pow2 j"
proof (cases "q = 0")
  case True
  then show ?thesis
    using assms(1,2) by (simp add: round_double_0)
next
  case False
  then have pos: "0 < \<bar>q\<bar>" and aq: "\<bar>q\<bar> = q"
    using assms(1) by simp_all
  define e where "e = ulp_exponent q"
  have k53: "(of_int k :: rat) < pow2 53"
  proof -
    have "(of_int k :: rat) < of_int (2 ^ 53)"
      using assms(3) by (simp only: of_int_less_iff)
    then show ?thesis
      by (simp add: pow2_nat)
  qed
  have ej: "e \<le> j"
  proof (rule ccontr)
    assume "\<not> e \<le> j"
    then have je: "j < e"
      by simp
    then have "- 1074 < ulp_exponent q"
      using assms(4) by (simp add: e_def)
    then have e: "e = ilog2 \<bar>q\<bar> - 52"
      unfolding e_def by (rule ulp_exponent_normal)
    have "q \<le> of_int k * pow2 j"
      by (rule assms(2))
    also have "\<dots> < pow2 53 * pow2 j"
      using k53 pow2_pos [of j] by simp
    also have "\<dots> = pow2 (53 + j)"
      by (simp add: pow2_add)
    also have "\<dots> \<le> pow2 (ilog2 \<bar>q\<bar>)"
      using je e by (intro pow2_mono) simp
    also have "\<dots> \<le> q"
      using ilog2_bounds(1) [OF pos] aq by simp
    finally show False
      by simp
  qed
  define K where "K = k * 2 ^ nat (j - e)"
  have K: "(of_int K :: rat) = of_int k * pow2 (j - e)"
    using ej by (simp add: K_def pow2_nat)
  have "q / pow2 e \<le> of_int k * pow2 j / pow2 e"
    using assms(2) pow2_pos [of e] by (simp add: divide_right_mono)
  also have "\<dots> = of_int K"
    by (simp add: K pow2_diff)
  finally have "round_half_even (q / pow2 e) \<le> K"
    by (rule round_half_even_le)
  then have "(of_int (round_half_even (q / pow2 e)) :: rat) \<le> of_int K"
    by (simp only: of_int_le_iff)
  then have "round_double q \<le> of_int K * pow2 e"
    using False pow2_pos [of e] by (simp add: round_double_eq e_def)
  also have "\<dots> = of_int k * pow2 j"
    using pow2_pos [of e] by (simp add: K pow2_diff)
  finally show ?thesis .
qed

lemma round_double_ge_dyadic:
  assumes "of_int k * pow2 j \<le> q" and "0 < k" and "k < 2 ^ 53" and "- 1074 \<le> j"
  shows "of_int k * pow2 j \<le> round_double q"
proof -
  have kp: "0 < (of_int k :: rat) * pow2 j"
    using assms(2) pow2_pos [of j] by simp
  then have q0: "q \<noteq> 0" and pos: "0 < \<bar>q\<bar>" and aq: "\<bar>q\<bar> = q"
    using assms(1) by simp_all
  define e where "e = ulp_exponent q"
  have k53: "(of_int k :: rat) < pow2 53"
  proof -
    have "(of_int k :: rat) < of_int (2 ^ 53)"
      using assms(3) by (simp only: of_int_less_iff)
    then show ?thesis
      by (simp add: pow2_nat)
  qed
  show ?thesis
  proof (cases "e \<le> j")
    case True
    define K where "K = k * 2 ^ nat (j - e)"
    have K: "(of_int K :: rat) = of_int k * pow2 (j - e)"
      using True by (simp add: K_def pow2_nat)
    have "of_int K = of_int k * pow2 j / pow2 e"
      by (simp add: K pow2_diff)
    also have "\<dots> \<le> q / pow2 e"
      using assms(1) pow2_pos [of e] by (simp add: divide_right_mono)
    finally have "K \<le> round_half_even (q / pow2 e)"
      by (rule round_half_even_ge)
    then have "(of_int K :: rat) \<le> of_int (round_half_even (q / pow2 e))"
      by (simp only: of_int_le_iff)
    then have "of_int K * pow2 e \<le> round_double q"
      using q0 pow2_pos [of e] by (simp add: round_double_eq e_def)
    moreover have "of_int K * pow2 e = of_int k * pow2 j"
      using pow2_pos [of e] by (simp add: K pow2_diff)
    ultimately show ?thesis
      by simp
  next
    case False
    then have je: "j < e"
      by simp
    then have "- 1074 < ulp_exponent q"
      using assms(4) by (simp add: e_def)
    then have e: "e = ilog2 \<bar>q\<bar> - 52"
      unfolding e_def by (rule ulp_exponent_normal)
    have "(of_int (2 ^ 52) :: rat) = pow2 (ilog2 \<bar>q\<bar>) / pow2 e"
      by (simp add: e pow2_diff [symmetric] pow2_nat)
    also have "\<dots> \<le> q / pow2 e"
      using ilog2_bounds(1) [OF pos] aq pow2_pos [of e] by (simp add: divide_right_mono)
    finally have "2 ^ 52 \<le> round_half_even (q / pow2 e)"
      by (rule round_half_even_ge)
    then have "(of_int (2 ^ 52) :: rat) \<le> of_int (round_half_even (q / pow2 e))"
      by (simp only: of_int_le_iff)
    then have "of_int (2 ^ 52) * pow2 e \<le> round_double q"
      using q0 pow2_pos [of e] by (simp add: round_double_eq e_def)
    moreover have "of_int (2 ^ 52) * pow2 e = pow2 (52 + e)"
      by (simp add: pow2_add pow2_nat)
    moreover have "of_int k * pow2 j \<le> pow2 53 * pow2 j"
      using k53 pow2_pos [of j] by simp
    moreover have "pow2 53 * pow2 j = pow2 (53 + j)"
      by (simp add: pow2_add)
    moreover have "pow2 (53 + j) \<le> pow2 (52 + e)"
      using je by (intro pow2_mono) simp
    ultimately show ?thesis
      by linarith
  qed
qed

lemma round_double_le_int:
  "0 \<le> q \<Longrightarrow> q \<le> of_int k \<Longrightarrow> k < 2 ^ 53 \<Longrightarrow> round_double q \<le> of_int k"
  using round_double_le_dyadic [of q k 0] by (simp add: pow2_def)

lemma round_double_ge_int:
  "of_int k \<le> q \<Longrightarrow> 0 < k \<Longrightarrow> k < 2 ^ 53 \<Longrightarrow> of_int k \<le> round_double q"
  using round_double_ge_dyadic [of k 0 q] by (simp add: pow2_def)

lemma round_double_nonpos:
  assumes "q \<le> 0"
  shows "round_double q \<le> 0"
proof (cases "q = 0")
  case True
  then show ?thesis
    by (simp add: round_double_0)
next
  case False
  have "q / pow2 (ulp_exponent q) \<le> of_int 0"
    using assms pow2_pos [of "ulp_exponent q"] by (simp add: divide_le_0_iff)
  then have "round_half_even (q / pow2 (ulp_exponent q)) \<le> 0"
    by (rule round_half_even_le)
  then have "(of_int (round_half_even (q / pow2 (ulp_exponent q))) :: rat) \<le> 0"
    by simp
  then show ?thesis
    using False pow2_pos [of "ulp_exponent q"] by (simp add: round_double_eq mult_le_0_iff)
qed

lemma round_double_le_bound:
  assumes "q \<le> of_int k" and "0 \<le> k" and "k < 2 ^ 53"
  shows "round_double q \<le> of_int k"
proof (cases "0 \<le> q")
  case True
  then show ?thesis
    using assms(1,3) by (rule round_double_le_int)
next
  case False
  then have "round_double q \<le> 0"
    by (simp add: round_double_nonpos)
  also have "(0 :: rat) \<le> of_int k"
    using assms(2) by simp
  finally show ?thesis .
qed

text \<open>
  For evaluation: a whole number below \<open>2 ^ 53\<close> is a double, so it is its own
  rounding.
\<close>

lemma round_double_code [code]:
  "round_double q =
     (if q = 0 then 0
      else if snd (quotient_of q) = 1 \<and> \<bar>fst (quotient_of q)\<bar> < 9007199254740992 then q
      else let e = ulp_exponent q in of_int (round_half_even (q / pow2 e)) * pow2 e)"
proof (cases "snd (quotient_of q) = 1 \<and> \<bar>fst (quotient_of q)\<bar> < 9007199254740992")
  case True
  obtain a b where ab: "quotient_of q = (a, b)"
    by (cases "quotient_of q") simp
  have b: "b = 1" and a: "\<bar>a\<bar> < 2 ^ 53"
    using True by (simp_all add: ab)
  have q: "q = of_int a"
    using quotient_of_div [OF ab] by (simp add: b)
  have "round_double (of_int a) = of_int a"
    using a by (rule round_double_of_int)
  then have "round_double q = q"
    by (simp only: q)
  with True show ?thesis
    by simp
next
  case False
  then show ?thesis
    by (auto simp add: round_double_def)
qed

section \<open>Basic facts\<close>

lemma calc_simps:
  "is_win (calculated_columns r) = astype_int (points r = 3)"
  "is_draw (calculated_columns r) = astype_int (points r = 1)"
  "is_loss (calculated_columns r) = astype_int (points r = 0)"
  "points (calculated_columns r) = points r"
  "possession_pct (calculated_columns r) = possession_pct r"
  "possession_category (calculated_columns r) = cut_possession (possession_pct r)"
  by (simp_all add: calculated_columns_def MatchRow.defs MatchRecord.defs)


lemma fround_0: "fround n (Fin 0) = Fin 0"
proof -
  have "round_double (10 ^ n) \<noteq> 0"
  proof (rule round_double_nonzero)
    show "1 \<le> \<bar>10 ^ n :: rat\<bar>"
      by simp
  qed
  then show ?thesis
    by (simp add: fround_def round_double_0 round_half_even_def)
qed

lemma fround_Fin: "\<exists>t. fround n (Fin q) = Fin t"
proof -
  have "round_double (10 ^ n) \<noteq> 0"
  proof (rule round_double_nonzero)
    show "1 \<le> \<bar>10 ^ n :: rat\<bar>"
      by simp
  qed
  then show ?thesis
    by (simp add: fround_def)
qed

lemma is_finite_fround: "is_finite x \<Longrightarrow> is_finite (fround n x)"
proof (cases x)
  case (Fin q)
  obtain t where "fround n (Fin q) = Fin t"
    using fround_Fin [of n q] by blast
  with Fin show ?thesis
    by simp
qed simp_all

lemma pairwise_sum_short: "length xs < 8 \<Longrightarrow> pairwise_sum xs = foldl dadd 0 xs"
  by (subst pairwise_sum.simps) (simp add: Let_def)

lemma rsum_Nil: "rsum col [] = 0"
  by (simp add: rsum_def pairwise_sum_short)

lemma rsum_single_int:
  "\<bar>n\<bar> < 2 ^ 53 \<Longrightarrow> col r = of_int n \<Longrightarrow> rsum col [r] = of_int n"
  by (simp add: rsum_def pairwise_sum_short dadd_def round_double_of_int)






lemma len_Fin: "len df = Fin (of_nat (length df))"
  by (simp add: len_def fi_def)












lemma calc_row:
  "Team (calculated_columns r) = Team r"
  "Side (calculated_columns r) = Side r"
  "season (calculated_columns r) = season r"
  "Goal_scored (calculated_columns r) = Goal_scored r"
  "Goal_conceded (calculated_columns r) = Goal_conceded r"
  "xG (calculated_columns r) = xG r"
  "xG_open_play (calculated_columns r) = xG_open_play r"
  "xG_set_play (calculated_columns r) = xG_set_play r"
  "Total_shots (calculated_columns r) = Total_shots r"
  "Big_chances (calculated_columns r) = Big_chances r"
  "Corners (calculated_columns r) = Corners r"
  by (simp_all add: calculated_columns_def MatchRow.defs MatchRecord.defs)


section \<open>Safe division\<close>



section \<open>Outcome flags\<close>

text \<open>
  Claim C7. For every normalized record whose points are 3, 1 or 0, exactly one of
  \<open>is_win\<close>, \<open>is_draw\<close>, \<open>is_loss\<close> is 1 and the others are 0: the win flag is set
  exactly for 3 points, the draw flag for 1 point, the loss flag for 0 points, so the three
  flags sum to 1.
\<close>

theorem outcome_flags_exclusive:
  "m \<in> set (add_calculated_columns df) \<Longrightarrow> points m \<in> {3, 1, 0} \<Longrightarrow>
     is_win m + is_draw m + is_loss m = 1
     \<and> (is_win m = 1 \<longleftrightarrow> points m = 3)
     \<and> (is_draw m = 1 \<longleftrightarrow> points m = 1)
     \<and> (is_loss m = 1 \<longleftrightarrow> points m = 0)
     \<and> is_win m \<in> {0, 1} \<and> is_draw m \<in> {0, 1} \<and> is_loss m \<in> {0, 1}"
  by (auto simp: add_calculated_columns_def calc_simps astype_int_def)

theorem outcome_flags_exclusive_witness:
  "calculated_columns (blank_row\<lparr>points := 3\<rparr>)
     \<in> set (add_calculated_columns [blank_row\<lparr>points := 3\<rparr>])
   \<and> points (calculated_columns (blank_row\<lparr>points := 3\<rparr>)) \<in> {3, 1, 0}
   \<and> is_win (calculated_columns (blank_row\<lparr>points := 3\<rparr>)) = 1
   \<and> is_draw (calculated_columns (blank_row\<lparr>points := 3\<rparr>)) = 0
   \<and> is_loss (calculated_columns (blank_row\<lparr>points := 3\<rparr>)) = 0"
proof -
  let ?m = "calculated_columns (blank_row\<lparr>points := 3\<rparr>)"
  have a: "?m \<in> set (add_calculated_columns [blank_row\<lparr>points := 3\<rparr>])"
    by (simp add: add_calculated_columns_def)
  have b: "points ?m \<in> {3, 1, 0}"
    by (simp add: calc_simps)
  have c: "points ?m = 3"
    by (simp add: calc_simps)
  from outcome_flags_exclusive [OF a b] c a b show ?thesis
    by auto
qed

section \<open>Possession bucket\<close>

text \<open>
  Claim C2. The claim labels possession by the half-open intervals [0,45), [45,55) and
  [55,100]. The label column of a record is cut on intervals closed on the right instead:
  a record with 45 percent possession carries the label \<open>Low (<45%)\<close>, one with 55 percent
  the label \<open>Medium (45-55%)\<close>, and one with 0 percent carries no label, while
  \<open>get_possession_effectiveness\<close> counts the same three records as a medium, a high and
  a low possession game.
\<close>

theorem possession_category_boundaries:
  "possession_category (calculated_columns (blank_row\<lparr>possession_pct := 45\<rparr>))
     = Some ''Low (<45%)''
   \<and> possession_category (calculated_columns (blank_row\<lparr>possession_pct := 55\<rparr>))
     = Some ''Medium (45-55%)''
   \<and> possession_category (calculated_columns (blank_row\<lparr>possession_pct := 0\<rparr>)) = None
   \<and> ditem (get_possession_effectiveness
              [calculated_columns (blank_row\<lparr>possession_pct := 45\<rparr>)])
        ''medium_possession_games'' = Inr (PNum (Fin 1))
   \<and> ditem (get_possession_effectiveness
              [calculated_columns (blank_row\<lparr>possession_pct := 55\<rparr>)])
        ''high_possession_games'' = Inr (PNum (Fin 1))
   \<and> ditem (get_possession_effectiveness
              [calculated_columns (blank_row\<lparr>possession_pct := 0\<rparr>)])
        ''low_possession_games'' = Inr (PNum (Fin 1))"
  by (simp add: calc_simps cut_possession_def get_possession_effectiveness_def ditem_def
        Let_def len_Fin)

section \<open>Empty team subset\<close>

lemma sums_Nil: "isum col [] = 0" "rsum rcol [] = 0" "len [] = Fin 0"
  by (simp_all add: isum_def rsum_Nil len_def fi_def)

lemma attacking_empty:
  "map fst (get_attacking_metrics []) =
     [''matches'', ''total_goals'', ''total_xg'', ''goals_per_game'', ''xg_per_game'',
      ''xg_overperformance'', ''xg_overperformance_per_game'', ''shot_conversion_pct'',
      ''shots_on_target_pct'', ''big_chance_conversion_pct'', ''shots_per_game'',
      ''shots_on_target_per_game'', ''big_chances_per_game'', ''xgot_per_game'',
      ''shots_inside_box_pct'', ''total_big_chances'', ''total_big_chances_missed'']"
  "set (map snd (get_attacking_metrics [])) = {PNum (Fin 0)}"
  by (simp_all add: get_attacking_metrics_def sums_Nil fround_0 round_double_0 fi_def
        goals_per_game_def xg_per_game_def xg_overperformance_def fsub_def
        xg_overperformance_per_game_def shot_conversion_rate_def shots_on_target_rate_def
        big_chance_conversion_rate_def shots_per_game_def shots_on_target_per_game_def
        big_chances_per_game_def xgot_per_game_def shots_inside_box_rate_def)

lemma defensive_empty:
  "map fst (get_defensive_metrics []) =
     [''matches'', ''total_goals_conceded'', ''goals_conceded_per_game'', ''clean_sheets'',
      ''clean_sheet_pct'', ''tackles_per_game'', ''interceptions_per_game'',
      ''blocks_per_game'', ''clearances_per_game'', ''defensive_actions_per_game'',
      ''saves_per_game'', ''total_tackles'', ''total_interceptions'', ''total_blocks'',
      ''total_clearances'']"
  "set (map snd (get_defensive_metrics [])) = {PNum (Fin 0)}"
  by (simp_all add: get_defensive_metrics_def sums_Nil fround_0 round_double_0 fi_def
        goals_conceded_per_game_def clean_sheets_def clean_sheet_percentage_def
        tackles_per_game_def interceptions_per_game_def blocks_per_game_def
        clearances_per_game_def defensive_actions_per_game_def saves_per_game_def)

lemma possession_empty:
  "map fst (get_possession_metrics []) =
     [''matches'', ''avg_possession'', ''passes_per_game'', ''pass_accuracy_pct'',
      ''opp_half_passes_per_game'', ''own_half_passes_per_game'', ''long_ball_accuracy_pct'',
      ''cross_accuracy_pct'', ''touches_in_box_per_game'', ''corners_per_game'',
      ''successful_dribbles_per_game'', ''total_passes'', ''total_corners'']"
  "set (map snd (get_possession_metrics [])) = {PNum (Fin 0)}"
  by (simp_all add: get_possession_metrics_def sums_Nil fround_0 round_double_0 fi_def
        average_possession_def passes_per_game_def pass_accuracy_def
        opposition_half_passes_per_game_def own_half_passes_per_game_def
        long_ball_accuracy_def cross_accuracy_def touches_in_box_per_game_def
        corners_per_game_def successful_dribbles_per_game_def)

text \<open>
  Claim C8. On a table with no record, the attacking, defensive and possession metrics are
  maps with all their keys, \<open>matches\<close> and every other entry equal to 0; the season
  summary, the set-piece, shot-quality and shot-outcome metrics and the possession
  effectiveness are the empty map. None of these functions has an error result.
\<close>

theorem empty_team_subset:
  "map fst (get_attacking_metrics []) =
     [''matches'', ''total_goals'', ''total_xg'', ''goals_per_game'', ''xg_per_game'',
      ''xg_overperformance'', ''xg_overperformance_per_game'', ''shot_conversion_pct'',
      ''shots_on_target_pct'', ''big_chance_conversion_pct'', ''shots_per_game'',
      ''shots_on_target_per_game'', ''big_chances_per_game'', ''xgot_per_game'',
      ''shots_inside_box_pct'', ''total_big_chances'', ''total_big_chances_missed'']
   \<and> set (map snd (get_attacking_metrics [])) = {PNum (Fin 0)}
   \<and> map fst (get_defensive_metrics []) =
     [''matches'', ''total_goals_conceded'', ''goals_conceded_per_game'', ''clean_sheets'',
      ''clean_sheet_pct'', ''tackles_per_game'', ''interceptions_per_game'',
      ''blocks_per_game'', ''clearances_per_game'', ''defensive_actions_per_game'',
      ''saves_per_game'', ''total_tackles'', ''total_interceptions'', ''total_blocks'',
      ''total_clearances'']
   \<and> set (map snd (get_defensive_metrics [])) = {PNum (Fin 0)}
   \<and> map fst (get_possession_metrics []) =
     [''matches'', ''avg_possession'', ''passes_per_game'', ''pass_accuracy_pct'',
      ''opp_half_passes_per_game'', ''own_half_passes_per_game'', ''long_ball_accuracy_pct'',
      ''cross_accuracy_pct'', ''touches_in_box_per_game'', ''corners_per_game'',
      ''successful_dribbles_per_game'', ''total_passes'', ''total_corners'']
   \<and> set (map snd (get_possession_metrics [])) = {PNum (Fin 0)}
   \<and> get_season_summary [] = []
   \<and> get_set_piece_metrics [] = []
   \<and> get_shot_quality_metrics [] = []
   \<and> get_shot_outcome_breakdown [] = []
   \<and> get_possession_effectiveness [] = []"
  using attacking_empty(2) defensive_empty(2) possession_empty(2)
  by (simp add: attacking_empty(1) defensive_empty(1) possession_empty(1) get_season_summary_def
        get_set_piece_metrics_def get_shot_quality_metrics_def
        get_shot_outcome_breakdown_def get_possession_effectiveness_def)

section \<open>Recent form\<close>

lemma form_letter_length: "length (form_letter r) = 1"
  by (simp add: form_letter_def)

lemma form_letter_chars: "set (form_letter r) \<subseteq> set ''WDL''"
  by (simp add: form_letter_def)

lemma length_form_string: "length (concat (map form_letter rs)) = length rs"
  by (induction rs) (simp_all add: form_letter_length)

lemma df_tail_nonneg: "0 \<le> n \<Longrightarrow> df_tail n df = drop (length df - nat n) df"
  by (simp add: df_tail_def)

text \<open>
  Claim C9. For a window \<open>n \<ge> 0\<close>, \<open>get_form\<close> reads the last \<open>n\<close> records of the
  table in the table's order (all of them when there are fewer): the form string has one
  letter W, D or L per such record, in that order, \<open>points\<close> is the sum of their points,
  and \<open>max_points\<close> is \<open>3 n\<close> however many records there are. With three records and
  \<open>n = 5\<close> the form string has three letters and \<open>max_points\<close> is 15.
\<close>

theorem get_form_window:
  "0 \<le> n \<Longrightarrow>
     ditem (get_form df n) ''form_string''
       = Inr (PStr (concat (map form_letter (drop (length df - nat n) df))))
   \<and> length (concat (map form_letter (drop (length df - nat n) df))) = min (nat n) (length df)
   \<and> set (concat (map form_letter (drop (length df - nat n) df))) \<subseteq> set ''WDL''
   \<and> ditem (get_form df n) ''points''
       = Inr (PNum (fi (isum points (drop (length df - nat n) df))))
   \<and> ditem (get_form df n) ''max_points'' = Inr (PNum (fi (n * 3)))"
  using form_letter_chars
  by (auto simp add: get_form_def ditem_def Let_def df_tail_nonneg length_form_string)

theorem get_form_window_witness:
  "(0::int) \<le> 5
   \<and> ditem (get_form (add_calculated_columns
        [blank_row\<lparr>points := 3\<rparr>, blank_row\<lparr>points := 1\<rparr>, blank_row\<lparr>points := 0\<rparr>]) 5)
        ''form_string'' = Inr (PStr ''WDL'')
   \<and> ditem (get_form (add_calculated_columns
        [blank_row\<lparr>points := 3\<rparr>, blank_row\<lparr>points := 1\<rparr>, blank_row\<lparr>points := 0\<rparr>]) 5)
        ''points'' = Inr (PNum (Fin 4))
   \<and> ditem (get_form (add_calculated_columns
        [blank_row\<lparr>points := 3\<rparr>, blank_row\<lparr>points := 1\<rparr>, blank_row\<lparr>points := 0\<rparr>]) 5)
        ''max_points'' = Inr (PNum (Fin 15))"
  using get_form_window [of 5 "add_calculated_columns
        [blank_row\<lparr>points := 3\<rparr>, blank_row\<lparr>points := 1\<rparr>, blank_row\<lparr>points := 0\<rparr>]"]
  by (simp add: add_calculated_columns_def form_letter_def calc_simps astype_int_def
        isum_def fi_def)

section \<open>Set-piece dependency rule\<close>

lemma set_piece_keys:
  assumes "df \<noteq> []"
  shows "map_of (get_set_piece_metrics df) ''set_piece_xg_pct''
           = Some (PNum (pct_or_0 (Fin (rsum xG_set_play df)) (Fin (rsum xG df))))"
    and "\<exists>a. map_of (get_set_piece_metrics df) ''open_play_xg_per_game'' = Some (PNum a)"
  using assms by (simp_all add: get_set_piece_metrics_def Let_def)

lemma shot_quality_keys:
  assumes "df \<noteq> []"
  shows "\<exists>a. map_of (get_shot_quality_metrics df) ''avg_xg_per_shot'' = Some (PNum a)"
    and "\<exists>a. map_of (get_shot_quality_metrics df) ''blocked_rate_pct'' = Some (PNum a)"
    and "\<exists>a. map_of (get_shot_quality_metrics df) ''woodwork_total'' = Some (PNum a)"
    and "\<exists>v. map_of (get_shot_quality_metrics df) ''potential_woodwork_goals'' = Some v"
  using assms by (simp_all add: get_shot_quality_metrics_def Let_def)

lemma set_piece_dependency_eq:
  assumes "map_of tsp ''set_piece_xg_pct'' = Some (PNum t)"
    and "map_of csp ''set_piece_xg_pct'' = Some (PNum c)"
  shows "set_piece_dependency tsp csp tn cn =
     Inr (if fgt t (fadd c (Fin 5))
          then [\<lparr> title = ''Set Piece Dependency'',
                   finding = [Txt tn, Txt '': '', Fmt [] (PNum t),
                              Txt ''% of xG from set pieces vs '', Txt cn,
                              Txt '': '', Fmt [] (PNum c), Txt ''%''],
                   action = ''Improve open play build-up patterns and create more chances from possession'',
                   severity = (if fgt t (Fin 35) then ''high'' else ''medium'') \<rparr>]
          else [])"
  by (simp add: set_piece_dependency_def getnum_def dget_def ditem_def bindE_def assms)

lemma shot_quality_gap_Inr:
  assumes "map_of tsq ''avg_xg_per_shot'' = Some (PNum a)"
    and "map_of csq ''avg_xg_per_shot'' = Some (PNum b)"
  shows "\<exists>l. shot_quality_gap tsq csq tn cn = Inr l \<and> (\<forall>i\<in>set l. title i = ''Shot Quality Gap'')"
  by (simp add: shot_quality_gap_def getnum_def dget_def ditem_def bindE_def assms Let_def)

lemma shots_being_blocked_Inr:
  assumes "map_of tsq ''blocked_rate_pct'' = Some (PNum a)"
    and "map_of csq ''blocked_rate_pct'' = Some (PNum b)"
  shows "\<exists>l. shots_being_blocked tsq csq tn cn = Inr l \<and> (\<forall>i\<in>set l. title i = ''Shots Being Blocked'')"
  by (simp add: shots_being_blocked_def getnum_def dget_def ditem_def bindE_def assms Let_def)

lemma finishing_luck_Inr:
  assumes "map_of tsq ''woodwork_total'' = Some (PNum a)"
    and "map_of tsq ''potential_woodwork_goals'' = Some v"
  shows "\<exists>l. finishing_luck tsq tn = Inr l \<and> (\<forall>i\<in>set l. title i = ''Finishing Luck'')"
  by (simp add: finishing_luck_def getnum_def dget_def ditem_def bindE_def assms)

lemma open_play_creation_Inr:
  assumes "map_of tsp ''open_play_xg_per_game'' = Some (PNum a)"
    and "map_of csp ''open_play_xg_per_game'' = Some (PNum b)"
  shows "\<exists>l. open_play_creation tsp csp tn cn = Inr l \<and> (\<forall>i\<in>set l. title i = ''Open Play Creation'')"
  by (simp add: open_play_creation_def getnum_def dget_def ditem_def bindE_def assms)

lemma filter_other_title:
  "\<forall>i\<in>set l. title i = s \<Longrightarrow> s \<noteq> s' \<Longrightarrow> filter (\<lambda>i. title i = s') l = []"
  by (induction l) auto

text \<open>
  A value rounded to one decimal is the double nearest to \<open>k / 10\<close> for a whole number
  \<open>k\<close> of tenths, and it is above 35 exactly when \<open>k\<close> is above 350.
\<close>

lemma fround_1_tenths:
  "\<exists>k. fround 1 (Fin x) = Fin (round_double (round_double (of_int k) / 10))"
proof -
  have "round_double 10 = 10"
    by (simp add: round_double_numeral)
  then show ?thesis
    by (auto simp add: fround_def)
qed

lemma pct_or_0_tenths:
  "\<exists>k. pct_or_0 (Fin a) (Fin b) = Fin (round_double (round_double (of_int k) / 10))"
proof (cases "flt (Fin 0) (Fin b)")
  case True
  obtain y where "fmul (fdiv (Fin a) (Fin b)) (Fin 100) = Fin y"
    using True by (auto simp add: round_double_0)
  then show ?thesis
    using True fround_1_tenths [of y] by (simp add: pct_or_0_def)
next
  case False
  have "Fin 0 = Fin (round_double (round_double (of_int 0) / 10))"
    by (simp add: round_double_0)
  then show ?thesis
    using False unfolding pct_or_0_def by (metis (full_types))
qed

lemma tenths_above_35:
  "fgt (Fin (round_double (round_double (of_int k) / 10))) (Fin 35) \<longleftrightarrow> 350 < k"
proof -
  define x where "x = round_double (of_int k) / 10"
  have r35: "round_double 35 = 35"
    by (simp add: round_double_numeral)
  have p: "of_int 561 * pow2 (- 4) = (561 / 16 :: rat)"
    by (simp add: pow2_def power_int_minus)
  have "35 < round_double (round_double x) \<longleftrightarrow> 350 < k"
  proof (cases "350 < k")
    case True
    then have "(of_int 351 :: rat) \<le> of_int k"
      by (simp only: of_int_le_iff)
    then have "of_int 351 \<le> round_double (of_int k)"
      by (rule round_double_ge_int) simp_all
    then have "561 / 16 \<le> round_double (of_int k) / 10"
      by simp
    then have "of_int 561 * pow2 (- 4) \<le> x"
      unfolding p x_def .
    then have "of_int 561 * pow2 (- 4) \<le> round_double x"
      by (rule round_double_ge_dyadic) simp_all
    then have "of_int 561 * pow2 (- 4) \<le> round_double (round_double x)"
      by (rule round_double_ge_dyadic) simp_all
    then have "561 / 16 \<le> round_double (round_double x)"
      unfolding p .
    then show ?thesis
      using True by simp
  next
    case False
    then have "(of_int k :: rat) \<le> of_int 350"
      by (simp only: of_int_le_iff)
    then have "round_double (of_int k) \<le> of_int 350"
      by (rule round_double_le_bound) simp_all
    then have "x \<le> of_int 35"
      by (simp add: x_def)
    then have "round_double x \<le> of_int 35"
      by (rule round_double_le_bound) simp_all
    then have "round_double (round_double x) \<le> of_int 35"
      by (rule round_double_le_bound) simp_all
    then show ?thesis
      using False by simp
  qed
  then show ?thesis
    by (simp add: fgt_def r35 x_def)
qed

text \<open>Example tables of one match with whole-number expected goals.\<close>

lemma share_example:
  assumes "\<bar>x\<bar> < 2 ^ 53" and "\<bar>s\<bar> < 2 ^ 53"
  shows "rsum xG [calculated_columns (blank_row\<lparr>xG := of_int x, xG_set_play := of_int s\<rparr>)]
           = of_int x"
    and "rsum xG_set_play [calculated_columns (blank_row\<lparr>xG := of_int x, xG_set_play := of_int s\<rparr>)]
           = of_int s"
  using assms by (simp_all add: rsum_single_int calc_row)

lemma share_values:
  "pct_or_0 (Fin 40) (Fin 100) = Fin 40" "pct_or_0 (Fin 30) (Fin 100) = Fin 30"
  "pct_or_0 (Fin 36) (Fin 100) = Fin 36" "pct_or_0 (Fin 29) (Fin 100) = Fin 29"
  "pct_or_0 (Fin 33) (Fin 100) = Fin 33" "pct_or_0 (Fin 27) (Fin 100) = Fin 27"
  "pct_or_0 (Fin 3504) (Fin 10000) = Fin 35"
  "pct_or_0 (Fin 23) (Fin 80) = Fin (round_double (287 / 10))"
  "pct_or_0 (Fin 237) (Fin 1000) = Fin (round_double (237 / 10))"
  by code_simp+

lemma share_comparisons:
  "fgt (Fin 40) (fadd (Fin 30) (Fin 5))" "fgt (Fin 40) (Fin 35)"
  "fgt (Fin 36) (fadd (Fin 29) (Fin 5))" "fgt (Fin 36) (Fin 35)"
  "fgt (Fin 33) (fadd (Fin 27) (Fin 5))" "\<not> fgt (Fin 33) (Fin 35)"
  "\<not> fgt (Fin 35) (fadd (Fin 30) (Fin 5))"
  "fgt (Fin 35) (fadd (Fin 29) (Fin 5))" "\<not> fgt (Fin 35) (Fin 35)"
  by (simp_all add: fgt_def round_double_numeral)

lemma share_comparison_binary:
  "\<not> fgt (Fin (round_double (287 / 10))) (fadd (Fin (round_double (237 / 10))) (Fin 5))"
  by code_simp

text \<open>
  Claim C5. When both teams have records, the set-piece share of xG that a metrics map
  holds is the displayed one: the share in percent rounded to one decimal, the double
  nearest to a whole number of tenths. \<open>get_tactical_insights\<close> returns a list of
  findings, and it holds the Set Piece Dependency finding exactly when the subject's
  displayed share is greater than the comparison team's displayed share plus 5; the finding
  then has severity high if the subject's displayed share is above 35, that is more than
  350 tenths, and medium otherwise. The comparisons are those of the code, on doubles.
\<close>

theorem set_piece_dependency_rule:
  assumes "team_df \<noteq> []" and "comparison_df \<noteq> []"
  shows "let t = pct_or_0 (Fin (rsum xG_set_play team_df)) (Fin (rsum xG team_df));
             c = pct_or_0 (Fin (rsum xG_set_play comparison_df)) (Fin (rsum xG comparison_df))
         in ditem (get_set_piece_metrics team_df) ''set_piece_xg_pct'' = Inr (PNum t)
          \<and> ditem (get_set_piece_metrics comparison_df) ''set_piece_xg_pct'' = Inr (PNum c)
          \<and> (\<exists>k. t = Fin (round_double (round_double (of_int k) / 10))
                 \<and> (fgt t (Fin 35) \<longleftrightarrow> 350 < k))
          \<and> (\<exists>l. c = Fin (round_double (round_double (of_int l) / 10)))
          \<and> (\<exists>ins. get_tactical_insights team_df comparison_df team_name comparison_name = Inr ins
                 \<and> map severity (filter (\<lambda>i. title i = ''Set Piece Dependency'') ins)
                     = (if fgt t (fadd c (Fin 5))
                        then [if fgt t (Fin 35) then ''high'' else ''medium''] else []))"
proof -
  let ?tsp = "get_set_piece_metrics team_df" and ?csp = "get_set_piece_metrics comparison_df"
  let ?tsq = "get_shot_quality_metrics team_df" and ?csq = "get_shot_quality_metrics comparison_df"
  define t where "t = pct_or_0 (Fin (rsum xG_set_play team_df)) (Fin (rsum xG team_df))"
  define c where
    "c = pct_or_0 (Fin (rsum xG_set_play comparison_df)) (Fin (rsum xG comparison_df))"
  have t: "map_of ?tsp ''set_piece_xg_pct'' = Some (PNum t)"
    unfolding t_def by (rule set_piece_keys(1) [OF assms(1)])
  have c: "map_of ?csp ''set_piece_xg_pct'' = Some (PNum c)"
    unfolding c_def by (rule set_piece_keys(1) [OF assms(2)])
  obtain k where k: "t = Fin (round_double (round_double (of_int k) / 10))"
    unfolding t_def using pct_or_0_tenths by blast
  obtain l where l: "c = Fin (round_double (round_double (of_int l) / 10))"
    unfolding c_def using pct_or_0_tenths by blast
  have high: "fgt t (Fin 35) \<longleftrightarrow> 350 < k"
    unfolding k by (rule tenths_above_35)
  define i1 where "i1 = (if fgt t (fadd c (Fin 5))
          then [\<lparr> title = ''Set Piece Dependency'',
                   finding = [Txt team_name, Txt '': '', Fmt [] (PNum t),
                              Txt ''% of xG from set pieces vs '', Txt comparison_name,
                              Txt '': '', Fmt [] (PNum c), Txt ''%''],
                   action = ''Improve open play build-up patterns and create more chances from possession'',
                   severity = (if fgt t (Fin 35) then ''high'' else ''medium'') \<rparr>]
          else [])"
  have r1: "set_piece_dependency ?tsp ?csp team_name comparison_name = Inr i1"
    unfolding i1_def by (rule set_piece_dependency_eq [OF t c])
  obtain i2 where r2: "shot_quality_gap ?tsq ?csq team_name comparison_name = Inr i2"
    and t2: "\<forall>i\<in>set i2. title i = ''Shot Quality Gap''"
    using shot_quality_keys(1) [OF assms(1)] shot_quality_keys(1) [OF assms(2)]
      shot_quality_gap_Inr by blast
  obtain i3 where r3: "shots_being_blocked ?tsq ?csq team_name comparison_name = Inr i3"
    and t3: "\<forall>i\<in>set i3. title i = ''Shots Being Blocked''"
    using shot_quality_keys(2) [OF assms(1)] shot_quality_keys(2) [OF assms(2)]
      shots_being_blocked_Inr by blast
  obtain i4 where r4: "finishing_luck ?tsq team_name = Inr i4"
    and t4: "\<forall>i\<in>set i4. title i = ''Finishing Luck''"
    using shot_quality_keys(3) [OF assms(1)] shot_quality_keys(4) [OF assms(1)]
      finishing_luck_Inr by blast
  obtain i5 where r5: "open_play_creation ?tsp ?csp team_name comparison_name = Inr i5"
    and t5: "\<forall>i\<in>set i5. title i = ''Open Play Creation''"
    using set_piece_keys(2) [OF assms(1)] set_piece_keys(2) [OF assms(2)]
      open_play_creation_Inr by blast
  have res: "get_tactical_insights team_df comparison_df team_name comparison_name
      = Inr (i1 @ i2 @ i3 @ i4 @ i5)"
    by (simp add: get_tactical_insights_def Let_def bindE_def r1 r2 r3 r4 r5)
  have f1: "map severity (filter (\<lambda>i. title i = ''Set Piece Dependency'') i1)
      = (if fgt t (fadd c (Fin 5)) then [if fgt t (Fin 35) then ''high'' else ''medium''] else [])"
    by (simp add: i1_def)
  have f2: "filter (\<lambda>i. title i = ''Set Piece Dependency'') i2 = []"
    by (rule filter_other_title [OF t2]) simp
  have f3: "filter (\<lambda>i. title i = ''Set Piece Dependency'') i3 = []"
    by (rule filter_other_title [OF t3]) simp
  have f4: "filter (\<lambda>i. title i = ''Set Piece Dependency'') i4 = []"
    by (rule filter_other_title [OF t4]) simp
  have f5: "filter (\<lambda>i. title i = ''Set Piece Dependency'') i5 = []"
    by (rule filter_other_title [OF t5]) simp
  have sev: "map severity (filter (\<lambda>i. title i = ''Set Piece Dependency'') (i1 @ i2 @ i3 @ i4 @ i5))
      = (if fgt t (fadd c (Fin 5)) then [if fgt t (Fin 35) then ''high'' else ''medium''] else [])"
    using f1 by (simp only: filter_append f2 f3 f4 f5 append_Nil2)
  have dt: "ditem ?tsp ''set_piece_xg_pct'' = Inr (PNum t)"
    and dc: "ditem ?csp ''set_piece_xg_pct'' = Inr (PNum c)"
    by (simp_all add: ditem_def t c)
  have kk: "\<exists>k. t = Fin (round_double (round_double (of_int k) / 10))
                 \<and> (fgt t (Fin 35) \<longleftrightarrow> 350 < k)"
    using k high by blast
  have ll: "\<exists>l. c = Fin (round_double (round_double (of_int l) / 10))"
    using l by blast
  have ii: "\<exists>ins. get_tactical_insights team_df comparison_df team_name comparison_name = Inr ins
                 \<and> map severity (filter (\<lambda>i. title i = ''Set Piece Dependency'') ins)
                     = (if fgt t (fadd c (Fin 5))
                        then [if fgt t (Fin 35) then ''high'' else ''medium''] else [])"
    using res sev by blast
  from dt dc kk ll ii show ?thesis
    unfolding Let_def t_def [symmetric] c_def [symmetric] by (intro conjI)
qed

theorem set_piece_dependency_rule_witness:
  "[calculated_columns (blank_row\<lparr>xG := 10000, xG_set_play := 3504\<rparr>)] \<noteq> []
   \<and> [calculated_columns (blank_row\<lparr>xG := 100, xG_set_play := 29\<rparr>)] \<noteq> []
   \<and> ditem (get_set_piece_metrics [calculated_columns (blank_row\<lparr>xG := 10000, xG_set_play := 3504\<rparr>)])
        ''set_piece_xg_pct'' = Inr (PNum (Fin 35))
   \<and> ditem (get_set_piece_metrics [calculated_columns (blank_row\<lparr>xG := 100, xG_set_play := 29\<rparr>)])
        ''set_piece_xg_pct'' = Inr (PNum (Fin 29))
   \<and> (\<exists>ins. get_tactical_insights
          [calculated_columns (blank_row\<lparr>xG := 10000, xG_set_play := 3504\<rparr>)]
          [calculated_columns (blank_row\<lparr>xG := 100, xG_set_play := 29\<rparr>)] ''A'' ''B'' = Inr ins
        \<and> map severity (filter (\<lambda>i. title i = ''Set Piece Dependency'') ins) = [''medium''])
   \<and> (\<exists>ins. get_tactical_insights
          [calculated_columns (blank_row\<lparr>xG := 10000, xG_set_play := 3504\<rparr>)]
          [calculated_columns (blank_row\<lparr>xG := 100, xG_set_play := 30\<rparr>)] ''A'' ''B'' = Inr ins
        \<and> map severity (filter (\<lambda>i. title i = ''Set Piece Dependency'') ins) = [])
   \<and> ditem (get_set_piece_metrics [calculated_columns (blank_row\<lparr>xG := 80, xG_set_play := 23\<rparr>)])
        ''set_piece_xg_pct'' = Inr (PNum (Fin (round_double (287 / 10))))
   \<and> ditem (get_set_piece_metrics [calculated_columns (blank_row\<lparr>xG := 1000, xG_set_play := 237\<rparr>)])
        ''set_piece_xg_pct'' = Inr (PNum (Fin (round_double (237 / 10))))
   \<and> (\<exists>ins. get_tactical_insights
          [calculated_columns (blank_row\<lparr>xG := 80, xG_set_play := 23\<rparr>)]
          [calculated_columns (blank_row\<lparr>xG := 1000, xG_set_play := 237\<rparr>)] ''A'' ''B'' = Inr ins
        \<and> map severity (filter (\<lambda>i. title i = ''Set Piece Dependency'') ins) = [])
   \<and> (\<exists>ins. get_tactical_insights
          [calculated_columns (blank_row\<lparr>xG := 100, xG_set_play := 40\<rparr>)]
          [calculated_columns (blank_row\<lparr>xG := 100, xG_set_play := 30\<rparr>)] ''A'' ''B'' = Inr ins
        \<and> map severity (filter (\<lambda>i. title i = ''Set Piece Dependency'') ins) = [''high''])
   \<and> (\<exists>ins. get_tactical_insights
          [calculated_columns (blank_row\<lparr>xG := 100, xG_set_play := 36\<rparr>)]
          [calculated_columns (blank_row\<lparr>xG := 100, xG_set_play := 29\<rparr>)] ''A'' ''B'' = Inr ins
        \<and> map severity (filter (\<lambda>i. title i = ''Set Piece Dependency'') ins) = [''high''])
   \<and> (\<exists>ins. get_tactical_insights
          [calculated_columns (blank_row\<lparr>xG := 100, xG_set_play := 33\<rparr>)]
          [calculated_columns (blank_row\<lparr>xG := 100, xG_set_play := 27\<rparr>)] ''A'' ''B'' = Inr ins
        \<and> map severity (filter (\<lambda>i. title i = ''Set Piece Dependency'') ins) = [''medium''])"
proof -
  let ?T = "\<lambda>x s. [calculated_columns (blank_row\<lparr>xG := x, xG_set_play := s\<rparr>)]"
  have sums: "rsum xG (?T 10000 3504) = 10000" "rsum xG_set_play (?T 10000 3504) = 3504"
    "rsum xG (?T 80 23) = 80" "rsum xG_set_play (?T 80 23) = 23"
    "rsum xG (?T 1000 237) = 1000" "rsum xG_set_play (?T 1000 237) = 237"
    "rsum xG (?T 100 40) = 100" "rsum xG_set_play (?T 100 40) = 40"
    "rsum xG (?T 100 36) = 100" "rsum xG_set_play (?T 100 36) = 36"
    "rsum xG (?T 100 33) = 100" "rsum xG_set_play (?T 100 33) = 33"
    "rsum xG (?T 100 30) = 100" "rsum xG_set_play (?T 100 30) = 30"
    "rsum xG (?T 100 29) = 100" "rsum xG_set_play (?T 100 29) = 29"
    "rsum xG (?T 100 27) = 100" "rsum xG_set_play (?T 100 27) = 27"
    using share_example [of 10000 3504] share_example [of 80 23] share_example [of 1000 237]
      share_example [of 100 40] share_example [of 100 36] share_example [of 100 33]
      share_example [of 100 30] share_example [of 100 29] share_example [of 100 27]
    by simp_all
  have a: "ditem (get_set_piece_metrics (?T 10000 3504)) ''set_piece_xg_pct'' = Inr (PNum (Fin 35))
      \<and> ditem (get_set_piece_metrics (?T 100 29)) ''set_piece_xg_pct'' = Inr (PNum (Fin 29))
      \<and> (\<exists>ins. get_tactical_insights (?T 10000 3504) (?T 100 29) ''A'' ''B'' = Inr ins
        \<and> map severity (filter (\<lambda>i. title i = ''Set Piece Dependency'') ins) = [''medium''])"
    using set_piece_dependency_rule [of "?T 10000 3504" "?T 100 29" "''A''" "''B''"]
    by (simp add: Let_def sums share_values share_comparisons del: fadd.simps)
  have b: "\<exists>ins. get_tactical_insights (?T 10000 3504) (?T 100 30) ''A'' ''B'' = Inr ins
        \<and> map severity (filter (\<lambda>i. title i = ''Set Piece Dependency'') ins) = []"
    using set_piece_dependency_rule [of "?T 10000 3504" "?T 100 30" "''A''" "''B''"]
    by (simp add: Let_def sums share_values share_comparisons del: fadd.simps)
  have c: "ditem (get_set_piece_metrics (?T 80 23)) ''set_piece_xg_pct''
        = Inr (PNum (Fin (round_double (287 / 10))))
      \<and> ditem (get_set_piece_metrics (?T 1000 237)) ''set_piece_xg_pct''
        = Inr (PNum (Fin (round_double (237 / 10))))
      \<and> (\<exists>ins. get_tactical_insights (?T 80 23) (?T 1000 237) ''A'' ''B'' = Inr ins
        \<and> map severity (filter (\<lambda>i. title i = ''Set Piece Dependency'') ins) = [])"
    using set_piece_dependency_rule [of "?T 80 23" "?T 1000 237" "''A''" "''B''"]
    by (simp add: Let_def sums share_values share_comparison_binary del: fadd.simps)
  have d: "\<exists>ins. get_tactical_insights (?T 100 40) (?T 100 30) ''A'' ''B'' = Inr ins
        \<and> map severity (filter (\<lambda>i. title i = ''Set Piece Dependency'') ins) = [''high'']"
    using set_piece_dependency_rule [of "?T 100 40" "?T 100 30" "''A''" "''B''"]
    by (simp add: Let_def sums share_values share_comparisons del: fadd.simps)
  have e: "\<exists>ins. get_tactical_insights (?T 100 36) (?T 100 29) ''A'' ''B'' = Inr ins
        \<and> map severity (filter (\<lambda>i. title i = ''Set Piece Dependency'') ins) = [''high'']"
    using set_piece_dependency_rule [of "?T 100 36" "?T 100 29" "''A''" "''B''"]
    by (simp add: Let_def sums share_values share_comparisons del: fadd.simps)
  have f: "\<exists>ins. get_tactical_insights (?T 100 33) (?T 100 27) ''A'' ''B'' = Inr ins
        \<and> map severity (filter (\<lambda>i. title i = ''Set Piece Dependency'') ins) = [''medium'']"
    using set_piece_dependency_rule [of "?T 100 33" "?T 100 27" "''A''" "''B''"]
    by (simp add: Let_def sums share_values share_comparisons del: fadd.simps)
  from a b c d e f show ?thesis
    by simp
qed

text \<open>
  With a comparison team that has no record the rule still fires on the default share 0,
  and reading the comparison team's share for the finding text raises \<open>KeyError\<close>.
\<close>

lemma set_piece_rule_empty_comparison:
  "get_tactical_insights [calculated_columns (blank_row\<lparr>xG := 100, xG_set_play := 40\<rparr>)] []
     ''A'' ''B'' = Inl KeyError"
proof -
  let ?T = "[calculated_columns (blank_row\<lparr>xG := 100, xG_set_play := 40\<rparr>)]"
  have "map_of (get_set_piece_metrics ?T) ''set_piece_xg_pct'' = Some (PNum (Fin 40))"
    using set_piece_keys(1) [of ?T] share_example [of 100 40] by (simp add: share_values)
  then have "set_piece_dependency (get_set_piece_metrics ?T) (get_set_piece_metrics []) ''A'' ''B''
      = Inl KeyError"
    by (simp add: set_piece_dependency_def getnum_def dget_def ditem_def bindE_def fgt_def
          get_set_piece_metrics_def [of "[]"] round_double_numeral round_double_0)
  then show ?thesis
    by (simp add: get_tactical_insights_def Let_def bindE_def)
qed

section \<open>Counter-attack rule\<close>

text \<open>
  For a team with records the rule emits its finding exactly when the high-possession
  points per game are not greater than the low-possession ones, equality included.
\<close>

lemma counter_attack_fires:
  assumes "team_df \<noteq> []"
  shows "\<exists>l. counter_attack (get_possession_effectiveness team_df) team_name = Inr l
     \<and> (l \<noteq> [] \<longleftrightarrow>
          \<not> fgt (per_game_or_0 points (filter (\<lambda>r. 55 \<le> possession_pct r) team_df))
                 (per_game_or_0 points (filter (\<lambda>r. possession_pct r < 45) team_df)))"
  using assms
  by (simp add: counter_attack_def get_possession_effectiveness_def Let_def dget_def ditem_def
        bindE_def)

text \<open>
  Claim C4. The claim says that no finding is emitted when the low-possession and the
  high-possession points per game are equal. For a team whose only match was played with
  50 percent possession both figures are 0, and the finding Counter-Attack Style More
  Effective is emitted, with 0 against 0 points per game in its text.
\<close>

theorem counter_attack_on_equal_ppg:
  "get_possession_tactical_insights
     [calculated_columns (blank_row\<lparr>points := 1, possession_pct := 50\<rparr>)] [] ''A'' ''B''
   = Inr [\<lparr> title = ''Counter-Attack Style More Effective'',
             finding = [Txt ''A'', Txt '' earns '', Fmt [] (PNum (Fin 0)),
                        Txt '' PPG with low possession vs '', Fmt [] (PNum (Fin 0)),
                        Txt '' PPG with high possession''],
             action = ''Consider tactical shift towards counter-attacking style'',
             severity = ''high'' \<rparr>]
   \<and> ditem (get_possession_effectiveness
        [calculated_columns (blank_row\<lparr>points := 1, possession_pct := 50\<rparr>)])
        ''low_possession_ppg'' = Inr (PNum (Fin 0))
   \<and> ditem (get_possession_effectiveness
        [calculated_columns (blank_row\<lparr>points := 1, possession_pct := 50\<rparr>)])
        ''high_possession_ppg'' = Inr (PNum (Fin 0))"
  by (simp add: get_possession_tactical_insights_def get_possession_effectiveness_def Let_def
        counter_attack_def possession_efficiency_gap_def high_possession_not_converting_def
        getnum_def dget_def ditem_def bindE_def calc_simps calc_row per_game_or_0_def
        rate_or_0_def rmean_def rsum_def pairwise_sum_short dadd_def isum_def len_Fin fi_def fgt_def fsub_def
        fround_0 round_double_0 round_double_numeral round_double_1
        blank_row_def)

section \<open>League table\<close>

lemma extend_fields:
  "row_Team (Standing.extend s \<lparr> row_Position = p \<rparr>) = row_Team s"
  "row_Points (Standing.extend s \<lparr> row_Position = p \<rparr>) = row_Points s"
  "row_GF (Standing.extend s \<lparr> row_Position = p \<rparr>) = row_GF s"
  "row_GA (Standing.extend s \<lparr> row_Position = p \<rparr>) = row_GA s"
  "row_W (Standing.extend s \<lparr> row_Position = p \<rparr>) = row_W s"
  "row_D (Standing.extend s \<lparr> row_Position = p \<rparr>) = row_D s"
  "row_L (Standing.extend s \<lparr> row_Position = p \<rparr>) = row_L s"
  "row_GD (Standing.extend s \<lparr> row_Position = p \<rparr>) = row_GD s"
  "row_P (Standing.extend s \<lparr> row_Position = p \<rparr>) = row_P s"
  "row_Position (Standing.extend s \<lparr> row_Position = p \<rparr>) = p"
  by (simp_all add: Standing.defs StandingsRow.defs)

lemma team_standing_fields:
  "row_Team (team_standing df t) = t"
  "row_Points (team_standing df t) = isum points (filter (\<lambda>r. Team r = t) df)"
  "row_GF (team_standing df t) = isum Goal_scored (filter (\<lambda>r. Team r = t) df)"
  "row_GA (team_standing df t) = isum Goal_conceded (filter (\<lambda>r. Team r = t) df)"
  "row_W (team_standing df t) = isum is_win (filter (\<lambda>r. Team r = t) df)"
  "row_D (team_standing df t) = isum is_draw (filter (\<lambda>r. Team r = t) df)"
  "row_L (team_standing df t) = isum is_loss (filter (\<lambda>r. Team r = t) df)"
  "row_GD (team_standing df t) = row_GF (team_standing df t) - row_GA (team_standing df t)"
  "row_P (team_standing df t) =
     row_W (team_standing df t) + row_D (team_standing df t) + row_L (team_standing df t)"
  by (simp_all add: team_standing_def Let_def)

lemma league_eq:
  "calculate_league_position df0 season_arg =
     map (\<lambda>(i, s). Standing.extend s \<lparr> row_Position = int i + 1 \<rparr>)
         (enumerate 0 (sorted_standings (season_rows df0 season_arg)))"
  by (simp add: calculate_league_position_def)

lemma length_league:
  "length (calculate_league_position df0 season_arg)
     = length (sorted_standings (season_rows df0 season_arg))"
  by (simp add: league_eq)

lemma nth_league:
  assumes "i < length (sorted_standings (season_rows df0 season_arg))"
  shows "calculate_league_position df0 season_arg ! i
     = Standing.extend (sorted_standings (season_rows df0 season_arg) ! i)
         \<lparr> row_Position = int i + 1 \<rparr>"
  using assms by (simp add: league_eq nth_enumerate_eq)

lemma set_group_keys: "set (group_keys df) = Team ` set df"
  by (simp add: group_keys_def)

lemma distinct_group_keys: "distinct (group_keys df)"
  by (simp add: group_keys_def)

lemma sorted_standings_teams:
  "map row_Team (sorted_standings df) \<in> {ts. distinct ts \<and> set ts = Team ` set df}"
proof -
  have inj: "inj_on (team_standing df) (set (group_keys df))"
    by (rule inj_onI) (metis team_standing_fields(1))
  have d: "distinct (map (team_standing df) (group_keys df))"
    by (simp add: distinct_map distinct_group_keys inj)
  have "distinct (map row_Team (sorted_standings df))"
  proof -
    have "inj_on row_Team (set (sorted_standings df))"
      by (rule inj_onI) (auto simp add: sorted_standings_def team_standing_fields(1))
    moreover have "distinct (sorted_standings df)"
      using d by (simp add: sorted_standings_def)
    ultimately show ?thesis by (simp add: distinct_map)
  qed
  moreover have "set (map row_Team (sorted_standings df)) = Team ` set df"
    by (auto simp add: sorted_standings_def team_standing_fields(1) set_group_keys image_image)
  ultimately show ?thesis by simp
qed

lemma sorted_standings_member:
  "s \<in> set (sorted_standings df) \<Longrightarrow> s = team_standing df (row_Team s) \<and> row_Team s \<in> Team ` set df"
  by (auto simp add: sorted_standings_def team_standing_fields(1) set_group_keys)



lemma map_team_league:
  "map row_Team (calculate_league_position df0 season_arg)
     = map row_Team (sorted_standings (season_rows df0 season_arg))"
  by (rule nth_equalityI) (simp_all add: length_league nth_league extend_fields)


lemma league_rows:
  assumes "row \<in> set (calculate_league_position df0 season_arg)"
  shows "\<exists>s. s = team_standing (season_rows df0 season_arg) (row_Team row)
     \<and> row_Team row \<in> Team ` set (season_rows df0 season_arg)
     \<and> row_Points row = row_Points s \<and> row_GF row = row_GF s \<and> row_GA row = row_GA s
     \<and> row_W row = row_W s \<and> row_D row = row_D s \<and> row_L row = row_L s
     \<and> row_GD row = row_GD s \<and> row_P row = row_P s"
proof -
  let ?ss = "sorted_standings (season_rows df0 season_arg)"
  from assms obtain i where i: "i < length ?ss"
    and row: "row = calculate_league_position df0 season_arg ! i"
    by (metis in_set_conv_nth length_league)
  have r: "row = Standing.extend (?ss ! i) \<lparr> row_Position = int i + 1 \<rparr>"
    using row nth_league [OF i] by simp
  have "?ss ! i \<in> set ?ss"
    using i by simp
  from sorted_standings_member [OF this] show ?thesis
    by (simp add: r extend_fields)
qed


lemma season_rows_simps:
  "season_rows df None = df"
  "s \<noteq> [] \<Longrightarrow> season_rows df (Some s) = filter (\<lambda>r. season r = s) df"
  by (simp_all add: season_rows_def)


text \<open>
  Rows that are equal in points, goal difference and goals scored keep the order of the
  grouped table, which is the ascending order of the team names.
\<close>

lemma league_full_ties:
  "filter (\<lambda>s. standings_key s = k) (sorted_standings df)
     = filter (\<lambda>s. standings_key s = k) (map (team_standing df) (group_keys df))"
  by (simp add: sorted_standings_def sort_key_stable)






lemma example_two_seasons_rows:
  "map season example_two_seasons = [''2023-2024'', ''2024-2025'']"
  "map (\<lambda>r. (row_Team r, row_Points r, row_GF r, row_GA r, row_W r, row_D r, row_L r))
     (calculate_league_position example_two_seasons None) = [(''A'', 4, 3, 1, 1, 1, 0)]"
  "map (\<lambda>r. (row_Team r, row_Points r, row_GF r, row_GA r, row_W r, row_D r, row_L r))
     (calculate_league_position example_two_seasons (Some ''2023-2024'')) = [(''A'', 3, 2, 0, 1, 0, 0)]"
  "isum points (filter (\<lambda>r. Team r = ''A'') example_two_seasons) = 4"
  by code_simp+

text \<open>
  Claim C10. Without a season argument the table is computed from all records: each
  team has one row, and its points, goals for and against, wins, draws and losses are the
  sums over all of the team's records, whatever their season. With a season argument the
  table is the one of the records of that season.
\<close>

theorem league_table_all_seasons:
  "(\<forall>row \<in> set (calculate_league_position df None).
        row_Points row = isum points (filter (\<lambda>r. Team r = row_Team row) df)
      \<and> row_GF row = isum Goal_scored (filter (\<lambda>r. Team r = row_Team row) df)
      \<and> row_GA row = isum Goal_conceded (filter (\<lambda>r. Team r = row_Team row) df)
      \<and> row_W row = isum is_win (filter (\<lambda>r. Team r = row_Team row) df)
      \<and> row_D row = isum is_draw (filter (\<lambda>r. Team r = row_Team row) df)
      \<and> row_L row = isum is_loss (filter (\<lambda>r. Team r = row_Team row) df))
   \<and> distinct (map row_Team (calculate_league_position df None))
   \<and> set (map row_Team (calculate_league_position df None)) = Team ` set df
   \<and> (s \<noteq> [] \<longrightarrow>
        calculate_league_position df (Some s)
          = calculate_league_position (filter (\<lambda>r. season r = s) df) None)"
proof -
  have rows: "\<forall>row \<in> set (calculate_league_position df None).
        row_Points row = isum points (filter (\<lambda>r. Team r = row_Team row) df)
      \<and> row_GF row = isum Goal_scored (filter (\<lambda>r. Team r = row_Team row) df)
      \<and> row_GA row = isum Goal_conceded (filter (\<lambda>r. Team r = row_Team row) df)
      \<and> row_W row = isum is_win (filter (\<lambda>r. Team r = row_Team row) df)
      \<and> row_D row = isum is_draw (filter (\<lambda>r. Team r = row_Team row) df)
      \<and> row_L row = isum is_loss (filter (\<lambda>r. Team r = row_Team row) df)"
  proof
    fix row assume "row \<in> set (calculate_league_position df None)"
    from league_rows [OF this]
    show "row_Points row = isum points (filter (\<lambda>r. Team r = row_Team row) df)
      \<and> row_GF row = isum Goal_scored (filter (\<lambda>r. Team r = row_Team row) df)
      \<and> row_GA row = isum Goal_conceded (filter (\<lambda>r. Team r = row_Team row) df)
      \<and> row_W row = isum is_win (filter (\<lambda>r. Team r = row_Team row) df)
      \<and> row_D row = isum is_draw (filter (\<lambda>r. Team r = row_Team row) df)
      \<and> row_L row = isum is_loss (filter (\<lambda>r. Team r = row_Team row) df)"
      by (simp add: team_standing_fields(2-7) season_rows_simps(1))
  qed
  have teams: "distinct (map row_Team (calculate_league_position df None))"
    "set (map row_Team (calculate_league_position df None)) = Team ` set df"
    using sorted_standings_teams [of df]
    by (simp_all only: map_team_league mem_Collect_eq season_rows_simps(1))
  have filt: "s \<noteq> [] \<longrightarrow>
        calculate_league_position df (Some s)
          = calculate_league_position (filter (\<lambda>r. season r = s) df) None"
    by (simp add: calculate_league_position_def season_rows_simps)
  show ?thesis
    by (rule conjI rows teams filt)+
qed

theorem league_table_all_seasons_witness:
  "calculate_league_position example_two_seasons None ! 0
     \<in> set (calculate_league_position example_two_seasons None)
   \<and> row_Team (calculate_league_position example_two_seasons None ! 0) = ''A''
   \<and> row_Points (calculate_league_position example_two_seasons None ! 0) = 4
   \<and> ''2023-2024'' \<noteq> []
   \<and> calculate_league_position example_two_seasons (Some ''2023-2024'')
       = calculate_league_position
           (filter (\<lambda>r. season r = ''2023-2024'') example_two_seasons) None"
proof -
  let ?res = "calculate_league_position example_two_seasons None"
  have "length ?res = 1"
    using arg_cong [OF example_two_seasons_rows(2), of length] by simp
  then have res: "?res = [?res ! 0]"
    by (cases ?res) simp_all
  then have mem: "?res ! 0 \<in> set ?res"
    by (metis list.set_intros(1))
  have "map row_Team ?res = [''A'']"
    using arg_cong [OF example_two_seasons_rows(2), of "map fst"] by (simp add: comp_def)
  then have team: "row_Team (?res ! 0) = ''A''"
    using res by (metis list.simps(9) list.inject)
  from league_table_all_seasons [of example_two_seasons "''2023-2024''"] mem team
    example_two_seasons_rows(4)
  show ?thesis
    by simp
qed

section \<open>Field parser\<close>

lemma char_classes:
  "\<not> is_digit (CHR ''('')" "\<not> is_space (CHR ''('')" "\<not> is_digit (CHR ''%'')"
  "\<not> is_space (CHR '')'')" "\<not> is_digit (CHR ''.'')" "\<not> is_digit (CHR ''_'')"
  "\<not> is_digit (CHR ''e'')" "\<not> is_digit (CHR ''E'')"
  by (simp_all add: is_digit_def is_space_def)

lemma digit_not_space: "is_digit c \<Longrightarrow> \<not> is_space c"
  by (auto simp add: is_digit_def is_space_def)


lemma strip_id:
  assumes "s \<noteq> []" and "\<not> is_space (hd s)" and "\<not> is_space (last s)"
  shows "strip s = s"
proof -
  have a: "dropWhile is_space s = s"
    using assms(1,2) by (cases s) simp_all
  have "rev s \<noteq> []" and "\<not> is_space (hd (rev s))"
    using assms(1,3) by (simp_all add: hd_rev)
  then have "dropWhile is_space (rev s) = rev s"
    by (cases "rev s") simp_all
  with a show ?thesis
    by (simp add: strip_def)
qed

lemma takeWhile_digits_stop:
  assumes "\<forall>c\<in>set ds. is_digit c" and "\<forall>c\<in>set ws. is_space c"
  shows "takeWhile is_digit (ds @ ws @ CHR ''('' # r) = ds"
    and "dropWhile is_space (dropWhile is_digit (ds @ ws @ CHR ''('' # r)) = CHR ''('' # r"
proof -
  have nd: "takeWhile is_digit (ws @ CHR ''('' # r) = []"
    using assms(2) by (cases ws) (auto simp add: char_classes dest: digit_not_space)
  have dd: "dropWhile is_digit (ws @ CHR ''('' # r) = ws @ CHR ''('' # r"
    using assms(2) by (cases ws) (auto simp add: char_classes dest: digit_not_space)
  show "takeWhile is_digit (ds @ ws @ CHR ''('' # r) = ds"
    using assms(1) nd by (simp add: takeWhile_append2)
  show "dropWhile is_space (dropWhile is_digit (ds @ ws @ CHR ''('' # r)) = CHR ''('' # r"
    using assms dd by (simp add: dropWhile_append2 char_classes)
qed

lemma match_count_pct_form:
  assumes "d1 \<noteq> []" and "\<forall>c\<in>set d1. is_digit c" and "\<forall>c\<in>set ws. is_space c"
    and "d2 \<noteq> []" and "\<forall>c\<in>set d2. is_digit c"
  shows "match_count_pct (d1 @ ws @ CHR ''('' # d2 @ CHR ''%'' # CHR '')'' # rest) = Some (d1, d2)"
proof -
  have t2: "takeWhile is_digit (d2 @ CHR ''%'' # CHR '')'' # rest) = d2"
    using assms(5) by (simp add: takeWhile_append2 char_classes)
  have d2: "dropWhile is_digit (d2 @ CHR ''%'' # CHR '')'' # rest) = CHR ''%'' # CHR '')'' # rest"
    using assms(5) by (simp add: dropWhile_append2 char_classes)
  show ?thesis
    using assms(1,4)
    by (simp add: match_count_pct_def Let_def takeWhile_digits_stop [OF assms(2,3)] t2 d2)
qed

lemma strip_form:
  assumes "d1 \<noteq> []" and "\<forall>c\<in>set d1. is_digit c"
  shows "strip (d1 @ ws @ CHR ''('' # d2 @ [CHR ''%'', CHR '')''])
     = d1 @ ws @ CHR ''('' # d2 @ [CHR ''%'', CHR '')'']"
proof (rule strip_id)
  show "d1 @ ws @ CHR ''('' # d2 @ [CHR ''%'', CHR '')''] \<noteq> []"
    using assms(1) by simp
  show "\<not> is_space (hd (d1 @ ws @ CHR ''('' # d2 @ [CHR ''%'', CHR '')'']))"
    using assms by (cases d1) (auto dest: digit_not_space)
  have "last (d1 @ ws @ CHR ''('' # d2 @ [CHR ''%'', CHR '')'']) = CHR '')''"
    by (simp add: last_append)
  then show "\<not> is_space (last (d1 @ ws @ CHR ''('' # d2 @ [CHR ''%'', CHR '')'']))"
    by (simp add: char_classes)
qed





lemma parse_form:
  assumes "d1 \<noteq> []" and "\<forall>c\<in>set d1. is_digit c" and "\<forall>c\<in>set ws. is_space c"
    and "d2 \<noteq> []" and "\<forall>c\<in>set d2. is_digit c"
  shows "parse_percentage_string (Some (d1 @ ws @ ''('' @ d2 @ ''%)''))
     = (if max_str_digits < length d1 then Inl ValueError
        else Inr (int (digits_val d1), fdiv (to_double (of_nat (digits_val d2))) (Fin 100)))"
  using assms(1) match_count_pct_form [OF assms, of "[]"] strip_form [OF assms(1,2), of ws d2]
  by (simp add: parse_percentage_string_def Let_def)












text \<open>
  Beyond the interpreter's limit on the digits of an integer text the count is not
  converted: \<open>int\<close> raises \<open>ValueError\<close>, outside the \<open>try\<close>.
\<close>

lemma parse_count_digit_limit:
  assumes "\<forall>c\<in>set d1. is_digit c" and "\<forall>c\<in>set ws. is_space c"
    and "d2 \<noteq> []" and "\<forall>c\<in>set d2. is_digit c" and "max_str_digits < length d1"
  shows "parse_percentage_string (Some (d1 @ ws @ ''('' @ d2 @ ''%)'')) = Inl ValueError"
proof -
  have "d1 \<noteq> []"
    using assms(5) by auto
  from parse_form [OF this assms(1-4)] assms(5) show ?thesis
    by simp
qed











end
